theory Spec2Isabelle
  imports Complex_Main "HOL-Library.AList"
begin

section \<open>The product API of server.js\<close>

text \<open>
  A shallow embedding of \<^verbatim>\<open>src/server.js\<close>: an Express application over one
  module-level array \<^verbatim>\<open>products\<close>. The array is the state; a request is
  processed to completion, so the application is a function from a request and the
  array to a response and the new array. Every \<^verbatim>\<open>throw\<close> of the source, and
  every \<^verbatim>\<open>TypeError\<close> the JavaScript runtime raises where the source calls a
  method on a value that does not have it, is a branch of the model (\<open>Inl\<close>).
\<close>

subsection \<open>JavaScript values\<close>

text \<open>
  The values \<^verbatim>\<open>JSON.parse\<close> produces. A number is a finite IEEE double; every
  finite double is a rational, and the source only copies numbers and tests them
  against \<^verbatim>\<open>null\<close> and for truthiness, so \<open>rat\<close> carries them. An object is
  the list of its own properties in insertion order; \<open>map_of\<close> reads a property
  and \<open>None\<close> is \<^verbatim>\<open>undefined\<close>. A string is a sequence of UTF-16 code units;
  a \<open>char\<close> is a code unit below 256 (Basic Latin and Latin-1), so a string with
  a code unit from 256 on is not a value of the model.
\<close>

datatype json =
    JNull
  | JBool bool
  | JNum rat
  | JStr string
  | JArr "json list"
  | JObj "(string \<times> json) list"

type_synonym obj = "(string \<times> json) list"

text \<open>\<^verbatim>\<open>!v\<close>: the falsy values are undefined, null, false, 0 and the empty string.\<close>

fun falsy :: "json option \<Rightarrow> bool" where
  "falsy None = True"
| "falsy (Some JNull) = True"
| "falsy (Some (JBool b)) = (\<not> b)"
| "falsy (Some (JNum n)) = (n = 0)"
| "falsy (Some (JStr s)) = (s = [])"
| "falsy (Some (JArr xs)) = False"
| "falsy (Some (JObj kvs)) = False"

text \<open>\<^verbatim>\<open>v == null\<close>: true of undefined and null only.\<close>

fun nullish :: "json option \<Rightarrow> bool" where
  "nullish None = True"
| "nullish (Some JNull) = True"
| "nullish (Some v) = False"

text \<open>
  \<^verbatim>\<open>{ ...target, ...source }\<close>: each own property of the source is assigned in
  order; an existing key keeps its position and takes the new value, a new key is
  appended (\<open>AList.update\<close>). This is the property order of JavaScript for keys
  that are not array indices; no property below depends on the order.
\<close>

definition spread :: "obj \<Rightarrow> obj \<Rightarrow> obj" where
  "spread target source = fold (\<lambda>(k, v). AList.update k v) source target"

text \<open>
  The own properties of a request body. \<^verbatim>\<open>bodyParser.json()\<close> is strict: a body
  is an object or an array. An array has none of the five required properties, so
  \<open>validateProduct\<close> rejects it before any handler spreads it.
\<close>

fun get_prop :: "json \<Rightarrow> string \<Rightarrow> json option" where
  "get_prop (JObj kvs) k = map_of kvs k"
| "get_prop v k = None"

fun own_props :: "json \<Rightarrow> obj" where
  "own_props (JObj kvs) = kvs"
| "own_props v = []"

subsection \<open>Strings\<close>

text \<open>
  \<^verbatim>\<open>String.prototype.toLowerCase\<close> on code units below 256: the letters A to Z,
  and the Latin-1 capitals U+00C0 to U+00DE without the multiplication sign U+00D7,
  move up by 32; every other code unit stays.
\<close>

definition lower_char :: "char \<Rightarrow> char" where
  "lower_char c =
     (case map_of (zip ''ABCDEFGHIJKLMNOPQRSTUVWXYZ'' ''abcdefghijklmnopqrstuvwxyz'') c of
        Some l \<Rightarrow> l
      | None \<Rightarrow>
          (let n = (of_char c :: nat)
           in if 192 \<le> n \<and> n \<le> 222 \<and> n \<noteq> 215 then char_of (n + 32) else c))"

definition toLowerCase :: "string \<Rightarrow> string" where
  "toLowerCase s = map lower_char s"

text \<open>\<^verbatim>\<open>String.prototype.includes\<close>: the argument occurs as a contiguous substring.\<close>

fun starts_with :: "string \<Rightarrow> string \<Rightarrow> bool" where
  "starts_with s [] = True"
| "starts_with [] (c # cs) = False"
| "starts_with (d # ds) (c # cs) = (d = c \<and> starts_with ds cs)"

fun str_includes :: "string \<Rightarrow> string \<Rightarrow> bool" where
  "str_includes [] s = (s = [])"
| "str_includes (d # ds) s = (starts_with (d # ds) s \<or> str_includes ds s)"

subsection \<open>Numbers\<close>

text \<open>
  The numbers the list handler computes with are doubles whose value is an integer,
  the two infinities and NaN. \<open>Num n\<close> is the double of value \<open>n\<close>; the two zeros
  are one value, since the handler only tests a number for truthiness and passes it
  to \<^verbatim>\<open>slice\<close>, which do not tell them apart. \<open>round_double\<close> is the conversion of
  an integer to a double: exact below \<open>2^53\<close>, otherwise rounded to 53 significant
  bits, ties to even, and infinite from \<open>2^1024\<close> on.
\<close>

datatype number = NaN | Inf bool | Num int

fun bits :: "nat \<Rightarrow> nat" where
  "bits n = (if n = 0 then 0 else Suc (bits (n div 2)))"

definition round_double :: "int \<Rightarrow> number" where
  "round_double n =
     (let m = nat \<bar>n\<bar>
      in if m < 2 ^ 53 then Num n
         else
           (let shift = bits m - 53;
                q = m div 2 ^ shift;
                r = m mod 2 ^ shift;
                q' = (if 2 ^ shift < 2 * r \<or> (2 * r = 2 ^ shift \<and> odd q) then q + 1 else q)
            in if 2 ^ 1024 \<le> q' * 2 ^ shift then Inf (0 < n)
               else Num (sgn n * int (q' * 2 ^ shift))))"

text \<open>Addition, negation and multiplication of IEEE 754 on these values.\<close>

fun num_add :: "number \<Rightarrow> number \<Rightarrow> number" where
  "num_add (Num a) (Num b) = round_double (a + b)"
| "num_add (Inf s) (Inf t) = (if s = t then Inf s else NaN)"
| "num_add (Inf s) (Num b) = Inf s"
| "num_add (Num a) (Inf t) = Inf t"
| "num_add NaN y = NaN"
| "num_add x NaN = NaN"

fun num_neg :: "number \<Rightarrow> number" where
  "num_neg NaN = NaN"
| "num_neg (Inf s) = Inf (\<not> s)"
| "num_neg (Num a) = Num (- a)"

definition num_sub :: "number \<Rightarrow> number \<Rightarrow> number" where
  "num_sub x y = num_add x (num_neg y)"

fun num_mul :: "number \<Rightarrow> number \<Rightarrow> number" where
  "num_mul (Num a) (Num b) = round_double (a * b)"
| "num_mul (Inf s) (Inf t) = Inf (s = t)"
| "num_mul (Inf s) (Num b) = (if b = 0 then NaN else Inf (s = (0 < b)))"
| "num_mul (Num a) (Inf t) = (if a = 0 then NaN else Inf (t = (0 < a)))"
| "num_mul NaN y = NaN"
| "num_mul x NaN = NaN"

text \<open>
  \<^verbatim>\<open>parseInt(string)\<close> with no radix (ECMAScript 19.2.5): leading white space is
  skipped (of the code units below 256: tab, line feed, vertical tab, form feed,
  carriage return, space and the no-break space), then an optional sign, then an
  optional \<^verbatim>\<open>0x\<close> prefix selecting radix 16, then the longest run of digits of the
  radix; no digit gives NaN. The result is the double of the integer read, rounded
  as V8 does, to the nearest double.
\<close>

definition is_ws :: "char \<Rightarrow> bool" where
  "is_ws c = ((of_char c :: nat) \<in> {9, 10, 11, 12, 13, 32, 160})"

definition digit_val :: "char \<Rightarrow> nat option" where
  "digit_val c =
     (let n = (of_char c :: nat) in
      if 48 \<le> n \<and> n \<le> 57 then Some (n - 48)
      else if 97 \<le> n \<and> n \<le> 102 then Some (n - 87)
      else if 65 \<le> n \<and> n \<le> 70 then Some (n - 55)
      else None)"

definition radix_digit :: "nat \<Rightarrow> char \<Rightarrow> nat option" where
  "radix_digit r c =
     (case digit_val c of None \<Rightarrow> None | Some d \<Rightarrow> if d < r then Some d else None)"

fun parse_digits :: "nat \<Rightarrow> nat option \<Rightarrow> string \<Rightarrow> nat option" where
  "parse_digits r acc [] = acc"
| "parse_digits r acc (c # cs) =
     (case radix_digit r c of
        None \<Rightarrow> acc
      | Some d \<Rightarrow> parse_digits r (Some ((case acc of None \<Rightarrow> 0 | Some a \<Rightarrow> a) * r + d)) cs)"

fun strip_sign :: "string \<Rightarrow> int \<times> string" where
  "strip_sign [] = (1, [])"
| "strip_sign (c # cs) =
     (if c = CHR ''-'' then (- 1, cs) else if c = CHR ''+'' then (1, cs) else (1, c # cs))"

fun strip_hex :: "string \<Rightarrow> nat \<times> string" where
  "strip_hex (a # b # cs) =
     (if a = CHR ''0'' \<and> (b = CHR ''x'' \<or> b = CHR ''X'') then (16, cs) else (10, a # b # cs))"
| "strip_hex cs = (10, cs)"

definition parseInt :: "string \<Rightarrow> number" where
  "parseInt s =
     (let (sign, s1) = strip_sign (dropWhile is_ws s);
          (r, s2) = strip_hex s1
      in case parse_digits r None s2 of
           None \<Rightarrow> NaN
         | Some n \<Rightarrow> round_double (sign * int n))"

text \<open>
  \<^verbatim>\<open>Array.prototype.slice(start, end)\<close> (ECMAScript 23.1.3.28). Each argument is
  made an integer or an infinity (NaN becomes 0); a negative index counts from the
  end, and both indices are clamped to the array.
\<close>

definition relative_index :: "nat \<Rightarrow> number \<Rightarrow> nat" where
  "relative_index len v =
     (case v of
        NaN \<Rightarrow> 0
      | Inf s \<Rightarrow> if s then len else 0
      | Num n \<Rightarrow> if n < 0 then nat (max (int len + n) 0) else nat (min n (int len)))"

definition slice :: "'a list \<Rightarrow> number \<Rightarrow> number \<Rightarrow> 'a list" where
  "slice xs start end' =
     (let len = length xs;
          k = relative_index len start;
          final = relative_index len end'
      in take (final - k) (drop k xs))"

subsection \<open>Errors\<close>

text \<open>
  An error object with the three properties the error handler reads. The two classes
  of the source set \<^verbatim>\<open>name\<close> and \<^verbatim>\<open>status\<close> in their constructors; a
  \<^verbatim>\<open>TypeError\<close> of the runtime has no \<^verbatim>\<open>status\<close>.
\<close>

record js_error =
  err_name :: string
  err_message :: string
  err_status :: "nat option"

definition NotFoundError :: "string \<Rightarrow> js_error" where
  "NotFoundError message =
     \<lparr>err_name = ''NotFoundError'', err_message = message, err_status = Some 404\<rparr>"

definition ValidationError :: "string \<Rightarrow> js_error" where
  "ValidationError message =
     \<lparr>err_name = ''ValidationError'', err_message = message, err_status = Some 400\<rparr>"

definition TypeError :: "string \<Rightarrow> js_error" where
  "TypeError message =
     \<lparr>err_name = ''TypeError'', err_message = message, err_status = None\<rparr>"

subsection \<open>Query values\<close>

text \<open>
  A member of \<^verbatim>\<open>req.query\<close> is a string, or an array (a repeated key) or an object
  (a bracketed key) of such values. \<open>qval_to_string\<close> is \<^verbatim>\<open>String(v)\<close>, which
  \<^verbatim>\<open>parseInt\<close> applies to its argument. An array joins the strings of its members
  with commas. An object without a \<^verbatim>\<open>toString\<close> property of its own inherits the
  one of \<^verbatim>\<open>Object.prototype\<close>; one with such a property has a value there that is
  not a function, and no \<^verbatim>\<open>valueOf\<close> that gives a primitive, so the conversion
  raises.
\<close>

datatype qval =
    QStr string
  | QArr "qval list"
  | QObj "(string \<times> qval) list"

definition bind_e :: "'e + 'a \<Rightarrow> ('a \<Rightarrow> 'e + 'b) \<Rightarrow> 'e + 'b" where
  "bind_e x f = (case x of Inl e \<Rightarrow> Inl e | Inr v \<Rightarrow> f v)"

fun join_comma :: "string list \<Rightarrow> string" where
  "join_comma [] = []"
| "join_comma [s] = s"
| "join_comma (s # t # ts) = s @ '','' @ join_comma (t # ts)"

fun qval_to_string :: "qval \<Rightarrow> js_error + string"
  and qvals_to_strings :: "qval list \<Rightarrow> js_error + string list" where
  "qval_to_string (QStr s) = Inr s"
| "qval_to_string (QArr vs) = bind_e (qvals_to_strings vs) (\<lambda>ss. Inr (join_comma ss))"
| "qval_to_string (QObj kvs) =
     (if ''toString'' \<in> fst ` set kvs
      then Inl (TypeError ''Cannot convert object to primitive value'')
      else Inr ''[object Object]'')"
| "qvals_to_strings [] = Inr []"
| "qvals_to_strings (v # vs) =
     bind_e (qval_to_string v) (\<lambda>s. bind_e (qvals_to_strings vs) (\<lambda>ss. Inr (s # ss)))"

subsection \<open>Requests and responses\<close>

text \<open>
  A request as the middleware chain sees it. \<open>req_path\<close> is the path split at
  \<^verbatim>\<open>/\<close> into its decoded segments; \<open>req_headers\<close> has lower-case names, as Node
  presents them. \<open>req_body\<close> is the outcome of \<^verbatim>\<open>bodyParser.json()\<close>, the first
  middleware of the source: \<open>Inr\<close> the value it leaves in \<^verbatim>\<open>req.body\<close> (the empty
  object when the request carries no JSON), or \<open>Inl\<close> the error it passes to
  \<^verbatim>\<open>next\<close> when the JSON is malformed or too large. The methods are the four
  the source registers routes for.
\<close>

datatype http_method = GET | POST | PUT | DELETE

record request =
  req_method :: http_method
  req_path :: "string list"
  req_headers :: "(string \<times> string) list"
  req_query :: "(string \<times> qval) list"
  req_body :: "js_error + json"

datatype payload = Json json | Text string | DefaultNotFoundPage

record response =
  res_status :: nat
  res_body :: payload

subsection \<open>Middleware\<close>

text \<open>The auth middleware: \<open>Some\<close> the response it sends, \<open>None\<close> when it calls \<^verbatim>\<open>next()\<close>.\<close>

definition auth :: "request \<Rightarrow> response option" where
  "auth req =
     (let apiKey = map_of (req_headers req) ''x-api-key'' in
      if apiKey \<noteq> Some ''12345''
      then Some \<lparr>res_status = 401,
                 res_body = Json (JObj [(''message'', JStr ''Unauthorized - Invalid API Key'')])\<rparr>
      else None)"

definition validateProduct :: "json \<Rightarrow> js_error + unit" where
  "validateProduct body =
     (let name = get_prop body ''name'';
          description = get_prop body ''description'';
          price = get_prop body ''price'';
          category = get_prop body ''category'';
          inStock = get_prop body ''inStock''
      in if falsy name \<or> falsy description \<or> nullish price \<or> falsy category \<or> nullish inStock
         then Inl (ValidationError ''Missing required product fields'')
         else Inr ())"

text \<open>The error handler: \<^verbatim>\<open>err.status || 500\<close>, where 0 is falsy too.\<close>

definition error_handler :: "js_error \<Rightarrow> response" where
  "error_handler err =
     (let status = (case err_status err of None \<Rightarrow> 500 | Some s \<Rightarrow> if s = 0 then 500 else s)
      in \<lparr>res_status = status,
          res_body = Json (JObj [(''error'', JStr (err_name err)),
                                 (''message'', JStr (err_message err))])\<rparr>)"

subsection \<open>The store\<close>

definition seed_products :: "obj list" where
  "seed_products =
     [[(''id'', JStr ''1''), (''name'', JStr ''Laptop''),
       (''description'', JStr ''High-performance laptop with 16GB RAM''),
       (''price'', JNum 1200), (''category'', JStr ''electronics''), (''inStock'', JBool True)],
      [(''id'', JStr ''2''), (''name'', JStr ''Smartphone''),
       (''description'', JStr ''Latest model with 128GB storage''),
       (''price'', JNum 800), (''category'', JStr ''electronics''), (''inStock'', JBool True)],
      [(''id'', JStr ''3''), (''name'', JStr ''Coffee Maker''),
       (''description'', JStr ''Programmable coffee maker with timer''),
       (''price'', JNum 50), (''category'', JStr ''kitchen''), (''inStock'', JBool False)]]"

subsection \<open>Handlers\<close>

text \<open>
  A handler returns the response it sends or the error it raises (thrown, or passed
  to \<^verbatim>\<open>next\<close>; Express routes both to the error handler), and the array. The
  message of a runtime error is the engine's; the texts below are those of V8 in
  outline and no property depends on them.
\<close>

text \<open>
  \<^verbatim>\<open>req.query.k?.toLowerCase()\<close>: undefined stays undefined, a string is lowered,
  an array or an object has no such method and the call raises.
\<close>

definition lower_query :: "(string \<times> qval) list \<Rightarrow> string \<Rightarrow> js_error + string option" where
  "lower_query q k =
     (case map_of q k of
        None \<Rightarrow> Inr None
      | Some (QStr s) \<Rightarrow> Inr (Some (toLowerCase s))
      | Some v \<Rightarrow> Inl (TypeError (''req.query.'' @ k @ ''.toLowerCase is not a function'')))"

text \<open>
  \<^verbatim>\<open>p.k.toLowerCase()\<close> on a stored record: only a string has the method; on
  undefined or null the property read raises, on any other value the call does.
\<close>

definition lower_field :: "obj \<Rightarrow> string \<Rightarrow> js_error + string" where
  "lower_field p k =
     (case map_of p k of
        Some (JStr s) \<Rightarrow> Inr (toLowerCase s)
      | None \<Rightarrow> Inl (TypeError (''Cannot read properties of undefined (reading toLowerCase)''))
      | Some JNull \<Rightarrow> Inl (TypeError (''Cannot read properties of null (reading toLowerCase)''))
      | Some v \<Rightarrow> Inl (TypeError (''p.'' @ k @ ''.toLowerCase is not a function'')))"

text \<open>\<^verbatim>\<open>Array.prototype.filter\<close> with a callback that may raise: the first raise ends it.\<close>

fun filter_e :: "('a \<Rightarrow> js_error + bool) \<Rightarrow> 'a list \<Rightarrow> js_error + 'a list" where
  "filter_e f [] = Inr []"
| "filter_e f (x # xs) =
     bind_e (f x) (\<lambda>b. bind_e (filter_e f xs) (\<lambda>ys. Inr (if b then x # ys else ys)))"

text \<open>The search callback; \<^verbatim>\<open>||\<close> does not evaluate its right side when the left is true.\<close>

definition search_matches :: "string \<Rightarrow> obj \<Rightarrow> js_error + bool" where
  "search_matches search p =
     bind_e (lower_field p ''name'') (\<lambda>name.
       if str_includes name search then Inr True
       else bind_e (lower_field p ''description'') (\<lambda>description.
         Inr (str_includes description search)))"

definition category_matches :: "string \<Rightarrow> obj \<Rightarrow> js_error + bool" where
  "category_matches category p =
     bind_e (lower_field p ''category'') (\<lambda>c. Inr (c = category))"

text \<open>\<^verbatim>\<open>if (search)\<close>: undefined and the empty string are falsy.\<close>

definition search_stage :: "(string \<times> qval) list \<Rightarrow> obj list \<Rightarrow> js_error + obj list" where
  "search_stage q result =
     bind_e (lower_query q ''search'') (\<lambda>search.
       case search of
         None \<Rightarrow> Inr result
       | Some s \<Rightarrow> if s = [] then Inr result else filter_e (search_matches s) result)"

definition category_stage :: "(string \<times> qval) list \<Rightarrow> obj list \<Rightarrow> js_error + obj list" where
  "category_stage q result =
     bind_e (lower_query q ''category'') (\<lambda>category.
       case category of
         None \<Rightarrow> Inr result
       | Some c \<Rightarrow> if c = [] then Inr result else filter_e (category_matches c) result)"

text \<open>
  \<^verbatim>\<open>parseInt(req.query.k)\<close>: \<^verbatim>\<open>parseInt(undefined)\<close> is NaN, and the conversion
  of the value to a string may raise. \<open>or_default\<close> is \<^verbatim>\<open>n || d\<close> on a number: NaN
  and 0 are falsy.
\<close>

definition query_num :: "(string \<times> qval) list \<Rightarrow> string \<Rightarrow> js_error + number" where
  "query_num q k =
     (case map_of q k of
        None \<Rightarrow> Inr NaN
      | Some v \<Rightarrow> bind_e (qval_to_string v) (\<lambda>s. Inr (parseInt s)))"

definition or_default :: "number \<Rightarrow> number \<Rightarrow> number" where
  "or_default n d = (if n = NaN \<or> n = Num 0 then d else n)"

definition paginate :: "(string \<times> qval) list \<Rightarrow> obj list \<Rightarrow> js_error + obj list" where
  "paginate q result =
     bind_e (query_num q ''page'') (\<lambda>p.
       bind_e (query_num q ''limit'') (\<lambda>l.
         (let page = or_default p (Num 1);
              limit = or_default l (Num (int (length result)));
              start = num_mul (num_sub page (Num 1)) limit;
              end' = num_add start limit
          in Inr (slice result start end'))))"

definition list_products :: "(string \<times> qval) list \<Rightarrow> obj list \<Rightarrow> js_error + response" where
  "list_products q products =
     bind_e (search_stage q products) (\<lambda>searched.
       bind_e (category_stage q searched) (\<lambda>result.
         bind_e (paginate q result) (\<lambda>paginated.
           Inr \<lparr>res_status = 200, res_body = Json (JArr (map JObj paginated))\<rparr>)))"

text \<open>
  \<^verbatim>\<open>p.id === req.params.id\<close>: strict equality of a stored value with the path
  parameter, a string (undefined when the route has no such parameter).
\<close>

fun id_is :: "string option \<Rightarrow> obj \<Rightarrow> bool" where
  "id_is None p = (map_of p ''id'' = None)"
| "id_is (Some pid) p = (map_of p ''id'' = Some (JStr pid))"

fun findIndex :: "('a \<Rightarrow> bool) \<Rightarrow> 'a list \<Rightarrow> nat option" where
  "findIndex P [] = None"
| "findIndex P (x # xs) = (if P x then Some 0 else map_option Suc (findIndex P xs))"

definition get_product :: "string option \<Rightarrow> obj list \<Rightarrow> js_error + response" where
  "get_product pid products =
     (case find (id_is pid) products of
        None \<Rightarrow> Inl (NotFoundError ''Product not found'')
      | Some product \<Rightarrow> Inr \<lparr>res_status = 200, res_body = Json (JObj product)\<rparr>)"

text \<open>
  \<^verbatim>\<open>{ id: uuidv4(), ...req.body }\<close>: the generated id is written first and the
  body is spread over it. \<open>uuid\<close> is the string \<^verbatim>\<open>uuidv4()\<close> returns in this
  request: 36 characters of the form \<^verbatim>\<open>xxxxxxxx-xxxx-4xxx-yxxx-xxxxxxxxxxxx\<close>, where
  x is a random hexadecimal digit and y is one of 8, 9, a and b.
\<close>

definition uuid_char :: "char \<Rightarrow> char \<Rightarrow> bool" where
  "uuid_char t c =
     (if t = CHR ''x'' then c \<in> set ''0123456789abcdef''
      else if t = CHR ''y'' then c \<in> set ''89ab''
      else c = t)"

definition is_uuid_v4 :: "string \<Rightarrow> bool" where
  "is_uuid_v4 u = list_all2 uuid_char ''xxxxxxxx-xxxx-4xxx-yxxx-xxxxxxxxxxxx'' u"


definition create_product :: "string \<Rightarrow> json \<Rightarrow> obj list \<Rightarrow> (js_error + response) \<times> obj list" where
  "create_product uuid body products =
     (let newProduct = spread [(''id'', JStr uuid)] (own_props body)
      in (Inr \<lparr>res_status = 201, res_body = Json (JObj newProduct)\<rparr>, products @ [newProduct]))"

definition update_product ::
    "string option \<Rightarrow> json \<Rightarrow> obj list \<Rightarrow> (js_error + response) \<times> obj list" where
  "update_product pid body products =
     (case findIndex (id_is pid) products of
        None \<Rightarrow> (Inl (NotFoundError ''Product not found''), products)
      | Some index \<Rightarrow>
          (let updated = spread (products ! index) (own_props body)
           in (Inr \<lparr>res_status = 200, res_body = Json (JObj updated)\<rparr>,
               products[index := updated])))"

text \<open>\<^verbatim>\<open>products.splice(index, 1)\<close> removes the element at the index and returns it.\<close>

definition delete_product :: "string option \<Rightarrow> obj list \<Rightarrow> (js_error + response) \<times> obj list" where
  "delete_product pid products =
     (case findIndex (id_is pid) products of
        None \<Rightarrow> (Inl (NotFoundError ''Product not found''), products)
      | Some index \<Rightarrow>
          (Inr \<lparr>res_status = 200,
                res_body = Json (JObj [(''message'', JStr ''Product deleted''),
                                       (''product'', JObj (products ! index))])\<rparr>,
           take index products @ drop (Suc index) products))"

text \<open>
  The statistics loop: \<^verbatim>\<open>categories[cat] = (categories[cat] || 0) + 1\<close>, for category
  names that are not members of \<^verbatim>\<open>Object.prototype\<close>.
\<close>

definition bump :: "obj \<Rightarrow> string \<Rightarrow> obj" where
  "bump categories cat =
     AList.update cat
       (JNum ((case map_of categories cat of Some (JNum n) \<Rightarrow> if n = 0 then 0 else n | _ \<Rightarrow> 0) + 1))
       categories"

fun tally :: "obj list \<Rightarrow> obj \<Rightarrow> js_error + obj" where
  "tally [] categories = Inr categories"
| "tally (product # rest) categories =
     bind_e (lower_field product ''category'') (\<lambda>cat. tally rest (bump categories cat))"

definition product_stats :: "obj list \<Rightarrow> js_error + response" where
  "product_stats products =
     bind_e (tally products []) (\<lambda>categories.
       Inr \<lparr>res_status = 200,
            res_body = Json (JObj [(''totalProducts'', JNum (of_nat (length products))),
                                   (''categories'', JObj categories)])\<rparr>)"

subsection \<open>Routing\<close>

text \<open>
  Express tries the routes in the order the source registers them and runs the first
  whose method and path match; no handler of the source calls \<^verbatim>\<open>next()\<close> without
  an error, so no later route runs. A literal segment matches without regard to case,
  a parameter matches any non-empty segment, and, routing not being strict, a path
  may end with one more \<^verbatim>\<open>/\<close>, which leaves an empty last segment.
\<close>

datatype seg = Lit string | Param string

datatype handler =
  Home | ListProducts | GetProduct | CreateProduct | UpdateProduct | DeleteProduct | ProductStats

definition routes :: "(http_method \<times> seg list \<times> handler) list" where
  "routes =
     [(GET, [], Home),
      (GET, [Lit ''api'', Lit ''products''], ListProducts),
      (GET, [Lit ''api'', Lit ''products'', Param ''id''], GetProduct),
      (POST, [Lit ''api'', Lit ''products''], CreateProduct),
      (PUT, [Lit ''api'', Lit ''products'', Param ''id''], UpdateProduct),
      (DELETE, [Lit ''api'', Lit ''products'', Param ''id''], DeleteProduct),
      (GET, [Lit ''api'', Lit ''products'', Lit ''stats''], ProductStats)]"

fun match_path :: "seg list \<Rightarrow> string list \<Rightarrow> (string \<times> string) list option" where
  "match_path [] [] = Some []"
| "match_path (Lit l # pattern) (s # path) =
     (if toLowerCase s = toLowerCase l then match_path pattern path else None)"
| "match_path (Param name # pattern) (s # path) =
     (if s = [] then None else map_option ((#) (name, s)) (match_path pattern path))"
| "match_path [] [s] = (if s = [] then Some [] else None)"
| "match_path pattern path = None"

fun dispatch ::
    "(http_method \<times> seg list \<times> handler) list \<Rightarrow> http_method \<Rightarrow> string list
       \<Rightarrow> (handler \<times> (string \<times> string) list) option" where
  "dispatch [] m path = None"
| "dispatch ((m', pattern, h) # rest) m path =
     (if m' = m
      then (case match_path pattern path of
              Some params \<Rightarrow> Some (h, params)
            | None \<Rightarrow> dispatch rest m path)
      else dispatch rest m path)"

text \<open>
  The body of each route: \<^verbatim>\<open>validateProduct\<close> runs before the POST and PUT
  handlers and its throw ends the request.
\<close>

fun run_handler ::
    "handler \<Rightarrow> (string \<times> string) list \<Rightarrow> string \<Rightarrow> (string \<times> qval) list \<Rightarrow> json \<Rightarrow> obj list
       \<Rightarrow> (js_error + response) \<times> obj list" where
  "run_handler Home params uuid q body products =
     (Inr \<lparr>res_status = 200,
           res_body = Text ''Welcome to the Product API! Go to /api/products to see all products.''\<rparr>,
      products)"
| "run_handler ListProducts params uuid q body products = (list_products q products, products)"
| "run_handler GetProduct params uuid q body products =
     (get_product (map_of params ''id'') products, products)"
| "run_handler CreateProduct params uuid q body products =
     (case validateProduct body of
        Inl err \<Rightarrow> (Inl err, products)
      | Inr u \<Rightarrow> create_product uuid body products)"
| "run_handler UpdateProduct params uuid q body products =
     (case validateProduct body of
        Inl err \<Rightarrow> (Inl err, products)
      | Inr u \<Rightarrow> update_product (map_of params ''id'') body products)"
| "run_handler DeleteProduct params uuid q body products =
     delete_product (map_of params ''id'') products"
| "run_handler ProductStats params uuid q body products = (product_stats products, products)"

subsection \<open>The application\<close>

text \<open>
  The middleware chain in the order of the source: the JSON body parser (an error of
  the parser goes straight to the error handler, as every \<^verbatim>\<open>next(err)\<close> does), the
  logger (it only prints), the auth check, the routes, and the error handler. A
  request no route matches gets the default 404 page of Express.
\<close>

definition app :: "string \<Rightarrow> request \<Rightarrow> obj list \<Rightarrow> response \<times> obj list" where
  "app uuid req products =
     (case req_body req of
        Inl err \<Rightarrow> (error_handler err, products)
      | Inr body \<Rightarrow>
          (case auth req of
             Some res \<Rightarrow> (res, products)
           | None \<Rightarrow>
               (case dispatch routes (req_method req) (req_path req) of
                  None \<Rightarrow> (\<lparr>res_status = 404, res_body = DefaultNotFoundPage\<rparr>, products)
                | Some (h, params) \<Rightarrow>
                    (case run_handler h params uuid (req_query req) body products of
                       (Inl err, products') \<Rightarrow> (error_handler err, products')
                     | (Inr res, products') \<Rightarrow> (res, products')))))"


section \<open>Vocabulary of the properties\<close>

text \<open>A request that carries the API key, and the two write routes.\<close>

definition authorized :: "request \<Rightarrow> bool" where
  "authorized req = (map_of (req_headers req) ''x-api-key'' = Some ''12345'')"

definition is_create :: "request \<Rightarrow> bool" where
  "is_create req = (req_method req = POST \<and> req_path req = [''api'', ''products''])"

definition is_update :: "request \<Rightarrow> string \<Rightarrow> bool" where
  "is_update req pid =
     (req_method req = PUT \<and> req_path req = [''api'', ''products'', pid] \<and> pid \<noteq> [])"

text \<open>
  The validator as the specification words it: a required field is absent when
  \<^verbatim>\<open>name\<close>, \<^verbatim>\<open>description\<close> or \<^verbatim>\<open>category\<close> is falsy, or \<^verbatim>\<open>price\<close> or
  \<^verbatim>\<open>inStock\<close> is null or undefined.
\<close>

definition missing_required :: "json \<Rightarrow> bool" where
  "missing_required body =
     (list_ex (\<lambda>k. falsy (get_prop body k)) [''name'', ''description'', ''category''] \<or>
      list_ex (\<lambda>k. nullish (get_prop body k)) [''price'', ''inStock''])"

definition json_request :: "http_method \<Rightarrow> string list \<Rightarrow> (string \<times> qval) list \<Rightarrow> json \<Rightarrow> request" where
  "json_request m path q body =
     \<lparr>req_method = m, req_path = path, req_headers = [(''x-api-key'', ''12345'')],
      req_query = q, req_body = Inr body\<rparr>"

definition is_delete :: "request \<Rightarrow> string \<Rightarrow> bool" where
  "is_delete req pid =
     (req_method req = DELETE \<and> req_path req = [''api'', ''products'', pid] \<and> pid \<noteq> [])"

text \<open>The ids of the stored records, in order; \<open>None\<close> is a record without an id.\<close>

definition ids :: "obj list \<Rightarrow> json option list" where
  "ids products = map (\<lambda>p. map_of p ''id'') products"

text \<open>
  A run serves requests one after another from a store; each request comes with the
  string \<^verbatim>\<open>uuidv4()\<close> returns if the request calls it.
\<close>

fun run :: "(string \<times> request) list \<Rightarrow> obj list \<Rightarrow> obj list" where
  "run [] products = products"
| "run ((uuid, req) # rest) products = run rest (snd (app uuid req products))"

text \<open>
  The runs the id invariant is about. \<open>calls_uuidv4\<close> holds of the requests that
  reach the call \<^verbatim>\<open>uuidv4()\<close> of the POST handler: the body parsed, the key is
  right, the route is the create route and validation passed; \<open>generated\<close> lists
  the strings the generator returned in a run. In an admissible run no POST or PUT
  body has an \<^verbatim>\<open>id\<close> property, and the generator returns identifiers of its form
  and never one it returned before. The source does not check the second: it relies
  on the generator.
\<close>

definition body_has_id :: "request \<Rightarrow> bool" where
  "body_has_id req =
     (case req_body req of Inl err \<Rightarrow> False | Inr body \<Rightarrow> get_prop body ''id'' \<noteq> None)"

definition calls_uuidv4 :: "request \<Rightarrow> bool" where
  "calls_uuidv4 req =
     (case req_body req of
        Inl err \<Rightarrow> False
      | Inr body \<Rightarrow>
          auth req = None \<and>
          map_option fst (dispatch routes (req_method req) (req_path req)) = Some CreateProduct \<and>
          validateProduct body = Inr ())"

definition generated :: "(string \<times> request) list \<Rightarrow> string list" where
  "generated steps = map fst (filter (\<lambda>(uuid, req). calls_uuidv4 req) steps)"

definition no_body_ids :: "(string \<times> request) list \<Rightarrow> bool" where
  "no_body_ids steps =
     list_all (\<lambda>(uuid, req). req_method req = POST \<or> req_method req = PUT \<longrightarrow> \<not> body_has_id req)
       steps"

definition admissible :: "(string \<times> request) list \<Rightarrow> bool" where
  "admissible steps =
     (no_body_ids steps \<and> list_all is_uuid_v4 (generated steps) \<and> distinct (generated steps))"

text \<open>
  One request leaves the ids as they are, position by position: the list of ids stays,
  or gets one id at its end, or loses the id at one position.
\<close>

definition id_step :: "json option list \<Rightarrow> json option list \<Rightarrow> bool" where
  "id_step before after =
     (after = before \<or> (after \<noteq> [] \<and> butlast after = before) \<or>
      list_ex (\<lambda>i. after = take i before @ drop (Suc i) before) [0..<length before])"






definition field_lower :: "obj \<Rightarrow> string \<Rightarrow> string" where
  "field_lower p k = (case map_of p k of Some (JStr s) \<Rightarrow> toLowerCase s | _ \<Rightarrow> [])"


definition category_filter :: "string option \<Rightarrow> obj list \<Rightarrow> obj list" where
  "category_filter category records =
     (case category of
        None \<Rightarrow> records
      | Some c \<Rightarrow> filter (\<lambda>p. field_lower p ''category'' = toLowerCase c) records)"


text \<open>A query value that is the empty string, which the source treats as absent.\<close>

definition nonempty :: "string option \<Rightarrow> string option" where
  "nonempty s = (case s of None \<Rightarrow> None | Some t \<Rightarrow> if t = [] then None else Some t)"

text \<open>An error of the JavaScript runtime: a \<^verbatim>\<open>TypeError\<close>, which has no status.\<close>

definition runtime_error :: "js_error \<Rightarrow> bool" where
  "runtime_error e = (err_name e = ''TypeError'' \<and> err_status e = None)"


section \<open>Basic facts\<close>

lemma bind_e_Inl: "bind_e x f = Inl e \<Longrightarrow> x = Inl e \<or> (\<exists>v. x = Inr v \<and> f v = Inl e)"
  by (cases x) (simp_all add: bind_e_def)

lemma bind_e_Inr [simp]: "bind_e (Inr v) f = f v"
  by (simp add: bind_e_def)

lemma bind_e_Inl_left [simp]: "bind_e (Inl e) f = Inl e"
  by (simp add: bind_e_def)

lemma validateProduct_iff:
  "validateProduct body =
     (if missing_required body
      then Inl (ValidationError ''Missing required product fields'') else Inr ())"
  by (auto simp: validateProduct_def missing_required_def)

lemma auth_authorized: "authorized req \<Longrightarrow> auth req = None"
  by (simp add: auth_def authorized_def)

lemma error_handler_validation:
  "error_handler (ValidationError m) =
     \<lparr>res_status = 400,
      res_body = Json (JObj [(''error'', JStr ''ValidationError''), (''message'', JStr m)])\<rparr>"
  by (simp add: error_handler_def ValidationError_def)

lemma error_handler_not_found:
  "error_handler (NotFoundError m) =
     \<lparr>res_status = 404,
      res_body = Json (JObj [(''error'', JStr ''NotFoundError''), (''message'', JStr m)])\<rparr>"
  by (simp add: error_handler_def NotFoundError_def)

subsection \<open>Which route runs\<close>

lemma dispatch_create: "dispatch routes POST [''api'', ''products''] = Some (CreateProduct, [])"
  by (simp add: routes_def)

lemma dispatch_update:
  "pid \<noteq> [] \<Longrightarrow>
   dispatch routes PUT [''api'', ''products'', pid] = Some (UpdateProduct, [(''id'', pid)])"
  by (simp add: routes_def)

lemma dispatch_delete:
  "pid \<noteq> [] \<Longrightarrow>
   dispatch routes DELETE [''api'', ''products'', pid] = Some (DeleteProduct, [(''id'', pid)])"
  by (simp add: routes_def)

lemma dispatch_get:
  "pid \<noteq> [] \<Longrightarrow>
   dispatch routes GET [''api'', ''products'', pid] = Some (GetProduct, [(''id'', pid)])"
  by (simp add: routes_def)

lemma dispatch_list: "dispatch routes GET [''api'', ''products''] = Some (ListProducts, [])"
  by (simp add: routes_def)

subsection \<open>The write routes\<close>

lemma app_create:
  assumes "authorized req" and "req_body req = Inr body" and "is_create req"
  shows "app uuid req products =
           (if missing_required body
            then (error_handler (ValidationError ''Missing required product fields''), products)
            else (\<lparr>res_status = 201,
                   res_body = Json (JObj (spread [(''id'', JStr uuid)] (own_props body)))\<rparr>,
                  products @ [spread [(''id'', JStr uuid)] (own_props body)]))"
  using assms
  by (simp add: app_def auth_authorized is_create_def dispatch_create validateProduct_iff
      create_product_def Let_def)

lemma app_update:
  assumes "authorized req" and "req_body req = Inr body" and "is_update req pid"
  shows "app uuid req products =
           (if missing_required body
            then (error_handler (ValidationError ''Missing required product fields''), products)
            else (case findIndex (id_is (Some pid)) products of
                    None \<Rightarrow> (error_handler (NotFoundError ''Product not found''), products)
                  | Some i \<Rightarrow>
                      (\<lparr>res_status = 200,
                        res_body = Json (JObj (spread (products ! i) (own_props body)))\<rparr>,
                       products[i := spread (products ! i) (own_props body)])))"
  using assms
  by (simp add: app_def auth_authorized is_update_def dispatch_update validateProduct_iff
      update_product_def Let_def split: option.splits)

subsection \<open>The errors a handler raises\<close>

lemma lower_field_error: "lower_field p k = Inl e \<Longrightarrow> runtime_error e"
  by (auto simp: lower_field_def runtime_error_def TypeError_def split: option.splits json.splits)

lemma lower_query_error: "lower_query q k = Inl e \<Longrightarrow> runtime_error e"
  by (auto simp: lower_query_def runtime_error_def TypeError_def split: option.splits qval.splits)

lemma filter_e_error:
  assumes "\<And>x e. f x = Inl e \<Longrightarrow> runtime_error e"
  shows "filter_e f xs = Inl e \<Longrightarrow> runtime_error e"
proof (induction xs)
  case Nil
  then show ?case by simp
next
  case (Cons x xs)
  then show ?case
    by (cases "f x"; cases "filter_e f xs") (auto dest: assms)
qed

lemma search_matches_error: "search_matches s p = Inl e \<Longrightarrow> runtime_error e"
  by (auto simp: search_matches_def dest!: bind_e_Inl dest: lower_field_error split: if_splits)

lemma category_matches_error: "category_matches c p = Inl e \<Longrightarrow> runtime_error e"
  by (auto simp: category_matches_def dest!: bind_e_Inl dest: lower_field_error)

lemma filter_search_error: "filter_e (search_matches s) xs = Inl e \<Longrightarrow> runtime_error e"
  by (erule filter_e_error [rotated]) (erule search_matches_error)

lemma filter_category_error: "filter_e (category_matches c) xs = Inl e \<Longrightarrow> runtime_error e"
  by (erule filter_e_error [rotated]) (erule category_matches_error)

lemma search_stage_error: "search_stage q xs = Inl e \<Longrightarrow> runtime_error e"
  by (auto simp: search_stage_def dest!: bind_e_Inl dest: lower_query_error
      filter_search_error split: option.splits if_splits)

lemma category_stage_error: "category_stage q xs = Inl e \<Longrightarrow> runtime_error e"
  by (auto simp: category_stage_def dest!: bind_e_Inl dest: lower_query_error
      filter_category_error split: option.splits if_splits)

lemma qval_to_string_error: "qval_to_string v = Inl e \<Longrightarrow> runtime_error e"
  and qvals_to_strings_error: "qvals_to_strings vs = Inl e \<Longrightarrow> runtime_error e"
proof (induction v and vs rule: qval_to_string_qvals_to_strings.induct)
  case (3 kvs)
  then show ?case by (auto simp: runtime_error_def TypeError_def split: if_splits)
qed (auto dest!: bind_e_Inl)

lemma query_num_error: "query_num q k = Inl e \<Longrightarrow> runtime_error e"
  by (auto simp: query_num_def dest!: bind_e_Inl dest: qval_to_string_error split: option.splits)

lemma paginate_error: "paginate q xs = Inl e \<Longrightarrow> runtime_error e"
  by (auto simp: paginate_def Let_def dest!: bind_e_Inl dest: query_num_error)

lemma list_products_error: "list_products q xs = Inl e \<Longrightarrow> runtime_error e"
  by (auto simp: list_products_def dest!: bind_e_Inl
      dest: search_stage_error category_stage_error paginate_error)

lemma tally_error: "tally xs cats = Inl e \<Longrightarrow> runtime_error e"
  by (induction xs arbitrary: cats) (auto dest!: bind_e_Inl dest: lower_field_error)

lemma product_stats_error: "product_stats xs = Inl e \<Longrightarrow> runtime_error e"
  by (auto simp: product_stats_def dest!: bind_e_Inl dest: tally_error)

lemma run_handler_error:
  assumes "run_handler h params uuid q body products = (Inl e, products')"
  shows "products' = products \<and>
         (e = ValidationError ''Missing required product fields'' \<or>
          e = NotFoundError ''Product not found'' \<or> runtime_error e)"
  using assms
  by (cases h)
     (auto simp: get_product_def create_product_def update_product_def delete_product_def
        validateProduct_iff Let_def
        dest: list_products_error product_stats_error split: option.splits if_splits)

subsection \<open>Objects and the array\<close>

lemma spread_Nil [simp]: "spread target [] = target"
  by (simp add: spread_def)

lemma spread_Cons [simp]: "spread target ((k, v) # source) = spread (AList.update k v target) source"
  by (simp add: spread_def)

lemma map_of_spread_other:
  "k \<notin> fst ` set source \<Longrightarrow> map_of (spread target source) k = map_of target k"
  by (induction source arbitrary: target) (auto simp: update_conv')

lemma map_of_spread_given:
  "distinct (map fst source) \<Longrightarrow> (k, v) \<in> set source \<Longrightarrow>
   map_of (spread target source) k = Some v"
proof (induction source arbitrary: target)
  case Nil
  then show ?case by simp
next
  case (Cons kv source)
  obtain k' v' where kv: "kv = (k', v')" by (cases kv)
  show ?case
  proof (cases "(k, v) = kv")
    case True
    with Cons.prems kv have "k \<notin> fst ` set source" by auto
    with True kv show ?thesis by (simp add: map_of_spread_other update_conv')
  next
    case False
    with Cons.prems kv have "distinct (map fst source)" and "(k, v) \<in> set source"
      by auto
    then have "map_of (spread (AList.update k' v' target) source) k = Some v"
      by (rule Cons.IH)
    with kv show ?thesis by simp
  qed
qed

lemma get_prop_None_iff: "get_prop body k = None \<longleftrightarrow> k \<notin> fst ` set (own_props body)"
  by (cases body) (simp_all add: map_of_eq_None_iff)

lemma findIndex_None_iff: "findIndex P xs = None \<longleftrightarrow> (\<forall>x \<in> set xs. \<not> P x)"
  by (induction xs) auto

lemma findIndex_Some_iff:
  "findIndex P xs = Some i \<longleftrightarrow> i < length xs \<and> P (xs ! i) \<and> (\<forall>j < i. \<not> P (xs ! j))"
proof (induction xs arbitrary: i)
  case Nil
  then show ?case by simp
next
  case (Cons x xs)
  show ?case
  proof (cases "P x")
    case True
    then show ?thesis by (cases i) auto
  next
    case False
    show ?thesis
    proof (cases i)
      case 0
      with False show ?thesis by simp
    next
      case (Suc n)
      with False Cons.IH [of n] show ?thesis
        by (auto simp: less_Suc_eq_0_disj)
    qed
  qed
qed

lemma find_findIndex:
  "find P xs = (case findIndex P xs of None \<Rightarrow> None | Some i \<Rightarrow> Some (xs ! i))"
  by (induction xs) (auto split: option.splits)

subsection \<open>Numbers\<close>

text \<open>
  The conversion to a double is exact below \<open>2^53\<close>; it never brings a number of
  at least \<open>2^j\<close>, for \<open>j\<close> from 53 on, below \<open>2^j\<close>; and it is infinite from
  \<open>2^1024\<close> on.
\<close>

declare bits.simps [simp del]









section \<open>Validation of write requests\<close>

text \<open>
  C5. An authorized \<^verbatim>\<open>POST /api/products\<close> or \<^verbatim>\<open>PUT /api/products/:id\<close> is answered
  with status 400 and the body of a \<^verbatim>\<open>ValidationError\<close> ("Missing required product
  fields") exactly when a required field is absent from the body, where \<^verbatim>\<open>name\<close>,
  \<^verbatim>\<open>description\<close> and \<^verbatim>\<open>category\<close> are absent when falsy and \<^verbatim>\<open>price\<close> and
  \<^verbatim>\<open>inStock\<close> only when null or undefined. The rejected request leaves the store as
  it was. A body whose \<^verbatim>\<open>price\<close> is 0 and whose \<^verbatim>\<open>inStock\<close> is false, with the
  three other fields truthy, is not rejected.
\<close>

theorem validation_gate:
  assumes "authorized req" and "req_body req = Inr body" and "is_create req \<or> is_update req pid"
  shows "((fst (app uuid req products) =
             \<lparr>res_status = 400,
              res_body = Json (JObj [(''error'', JStr ''ValidationError''),
                                     (''message'', JStr ''Missing required product fields'')])\<rparr>)
          = missing_required body) \<and>
         ((res_status (fst (app uuid req products)) = 400) = missing_required body) \<and>
         (missing_required body \<longrightarrow> snd (app uuid req products) = products) \<and>
         (\<not> falsy (get_prop body ''name'') \<and> \<not> falsy (get_prop body ''description'') \<and>
          \<not> falsy (get_prop body ''category'') \<and> get_prop body ''price'' = Some (JNum 0) \<and>
          get_prop body ''inStock'' = Some (JBool False) \<longrightarrow> \<not> missing_required body)"
proof -
  have accepted:
    "\<not> falsy (get_prop body ''name'') \<and> \<not> falsy (get_prop body ''description'') \<and>
     \<not> falsy (get_prop body ''category'') \<and> get_prop body ''price'' = Some (JNum 0) \<and>
     get_prop body ''inStock'' = Some (JBool False) \<longrightarrow> \<not> missing_required body"
    by (simp add: missing_required_def)
  show ?thesis
  proof (cases "is_create req")
    case True
    show ?thesis
      using accepted by (simp add: app_create [OF assms(1,2) True] error_handler_validation)
  next
    case False
    with assms(3) have upd: "is_update req pid" by simp
    show ?thesis
      using accepted
      by (simp add: app_update [OF assms(1,2) upd] error_handler_validation
          error_handler_not_found split: option.splits)
  qed
qed

theorem validation_gate_witness:
  "authorized (json_request POST [''api'', ''products''] []
      (JObj [(''name'', JStr ''Pen''), (''description'', JStr ''Blue''), (''price'', JNum 0),
             (''category'', JStr ''office''), (''inStock'', JBool False)])) \<and>
   \<not> missing_required
      (JObj [(''name'', JStr ''Pen''), (''description'', JStr ''Blue''), (''price'', JNum 0),
             (''category'', JStr ''office''), (''inStock'', JBool False)]) \<and>
   res_status (fst (app ''u1''
      (json_request POST [''api'', ''products''] []
        (JObj [(''name'', JStr ''Pen''), (''description'', JStr ''Blue''), (''price'', JNum 0),
               (''category'', JStr ''office''), (''inStock'', JBool False)]))
      seed_products)) \<noteq> 400 \<and>
   missing_required (JObj [(''name'', JStr []), (''price'', JNum 5)]) \<and>
   app ''u2''
      (json_request PUT [''api'', ''products'', ''1''] []
        (JObj [(''name'', JStr []), (''price'', JNum 5)]))
      seed_products =
     (\<lparr>res_status = 400,
       res_body = Json (JObj [(''error'', JStr ''ValidationError''),
                              (''message'', JStr ''Missing required product fields'')])\<rparr>,
      seed_products)"
proof -
  let ?body = "JObj [(''name'', JStr ''Pen''), (''description'', JStr ''Blue''),
    (''price'', JNum 0), (''category'', JStr ''office''), (''inStock'', JBool False)]"
  let ?req = "json_request POST [''api'', ''products''] [] ?body"
  have a: "authorized ?req" by (simp add: authorized_def json_request_def)
  have b: "req_body ?req = Inr ?body" by (simp add: json_request_def)
  have c: "is_create ?req \<or> is_update ?req ''1''" by (simp add: is_create_def json_request_def)
  have m: "\<not> missing_required ?body" by (simp add: missing_required_def)
  let ?body' = "JObj [(''name'', JStr []), (''price'', JNum 5)]"
  let ?req' = "json_request PUT [''api'', ''products'', ''1''] [] ?body'"
  have a': "authorized ?req'" by (simp add: authorized_def json_request_def)
  have b': "req_body ?req' = Inr ?body'" by (simp add: json_request_def)
  have c': "is_create ?req' \<or> is_update ?req' ''1''" by (simp add: is_update_def json_request_def)
  have m': "missing_required ?body'" by (simp add: missing_required_def)
  have accepted: "res_status (fst (app ''u1'' ?req seed_products)) \<noteq> 400"
    using validation_gate [OF a b c, of "''u1''" seed_products] m by simp
  have rejected: "app ''u2'' ?req' seed_products =
     (\<lparr>res_status = 400,
       res_body = Json (JObj [(''error'', JStr ''ValidationError''),
                              (''message'', JStr ''Missing required product fields'')])\<rparr>,
      seed_products)"
    using validation_gate [OF a' b' c', of "''u2''" seed_products] m'
    by (simp add: prod_eq_iff)
  from a m accepted m' rejected show ?thesis by blast
qed


section \<open>The error handler\<close>

text \<open>
  C9. The error handler answers a \<^verbatim>\<open>ValidationError\<close> with status 400 and a
  \<^verbatim>\<open>NotFoundError\<close> with status 404, each with the body
  \<^verbatim>\<open>{error: <name>, message: <message>}\<close>; an error that carries no status is
  answered with 500 and a body of the same shape, whose kind is the name the error
  object has. Whenever the handler of an authorized request raises an error, the
  response of the application is the one the error handler makes of that error and
  the store is as before; the error is one of the two classes of the source or an
  error of the runtime, which has no status and so gives 500.
\<close>

theorem error_mapping:
  "error_handler (ValidationError m) =
     \<lparr>res_status = 400,
      res_body = Json (JObj [(''error'', JStr ''ValidationError''), (''message'', JStr m)])\<rparr> \<and>
   error_handler (NotFoundError m) =
     \<lparr>res_status = 404,
      res_body = Json (JObj [(''error'', JStr ''NotFoundError''), (''message'', JStr m)])\<rparr> \<and>
   (err_status e = None \<longrightarrow>
      error_handler e =
        \<lparr>res_status = 500,
         res_body = Json (JObj [(''error'', JStr (err_name e)),
                                (''message'', JStr (err_message e))])\<rparr>) \<and>
   (authorized req \<and> req_body req = Inr body \<and>
    dispatch routes (req_method req) (req_path req) = Some (h, params) \<and>
    run_handler h params uuid (req_query req) body products = (Inl err, products') \<longrightarrow>
      app uuid req products = (error_handler err, products) \<and>
      (err = ValidationError ''Missing required product fields'' \<or>
       err = NotFoundError ''Product not found'' \<or>
       runtime_error err \<and> res_status (error_handler err) = 500))"
proof -
  have handled: "app uuid req products = (error_handler err, products) \<and>
      (err = ValidationError ''Missing required product fields'' \<or>
       err = NotFoundError ''Product not found'' \<or>
       runtime_error err \<and> res_status (error_handler err) = 500)"
    if a: "authorized req" and b: "req_body req = Inr body"
      and d: "dispatch routes (req_method req) (req_path req) = Some (h, params)"
      and r: "run_handler h params uuid (req_query req) body products = (Inl err, products')"
  proof -
    from run_handler_error [OF r]
    have same: "products' = products"
      and kind: "err = ValidationError ''Missing required product fields'' \<or>
        err = NotFoundError ''Product not found'' \<or> runtime_error err"
      by simp_all
    have "app uuid req products = (error_handler err, products)"
      using a b d r same by (simp add: app_def auth_authorized)
    moreover have "runtime_error err \<Longrightarrow> res_status (error_handler err) = 500"
      by (simp add: runtime_error_def error_handler_def)
    ultimately show ?thesis using kind by blast
  qed
  have unclassified: "err_status e = None \<longrightarrow>
      error_handler e =
        \<lparr>res_status = 500,
         res_body = Json (JObj [(''error'', JStr (err_name e)),
                                (''message'', JStr (err_message e))])\<rparr>"
    by (simp add: error_handler_def)
  show ?thesis
    using handled unclassified
    by (simp add: error_handler_validation error_handler_not_found)
qed

theorem error_mapping_witness:
  "run_handler GetProduct [(''id'', ''9'')] ''u1'' [] (JObj []) seed_products =
     (Inl (NotFoundError ''Product not found''), seed_products) \<and>
   app ''u1'' (json_request GET [''api'', ''products'', ''9''] [] (JObj [])) seed_products =
     (\<lparr>res_status = 404,
       res_body = Json (JObj [(''error'', JStr ''NotFoundError''),
                              (''message'', JStr ''Product not found'')])\<rparr>,
      seed_products) \<and>
   run_handler ListProducts [] ''u2'' [(''search'', QObj [])] (JObj []) seed_products =
     (Inl (TypeError ''req.query.search.toLowerCase is not a function''), seed_products) \<and>
   err_status (TypeError ''req.query.search.toLowerCase is not a function'') = None \<and>
   app ''u2'' (json_request GET [''api'', ''products''] [(''search'', QObj [])] (JObj []))
     seed_products =
     (\<lparr>res_status = 500,
       res_body = Json (JObj [(''error'', JStr ''TypeError''),
                              (''message'',
                               JStr ''req.query.search.toLowerCase is not a function'')])\<rparr>,
      seed_products)"
proof -
  let ?req = "json_request GET [''api'', ''products'', ''9''] [] (JObj [])"
  have a: "authorized ?req" by (simp add: authorized_def json_request_def)
  have b: "req_body ?req = Inr (JObj [])" by (simp add: json_request_def)
  have d: "dispatch routes (req_method ?req) (req_path ?req) = Some (GetProduct, [(''id'', ''9'')])"
    by (simp add: json_request_def dispatch_get)
  have r: "run_handler GetProduct [(''id'', ''9'')] ''u1'' (req_query ?req) (JObj []) seed_products =
      (Inl (NotFoundError ''Product not found''), seed_products)"
    by (simp add: json_request_def get_product_def seed_products_def)
  have not_found: "app ''u1'' ?req seed_products =
      (error_handler (NotFoundError ''Product not found''), seed_products)"
    using error_mapping [where req = ?req and body = "JObj []" and h = GetProduct
        and params = "[(''id'', ''9'')]" and uuid = "''u1''" and products = seed_products
        and err = "NotFoundError ''Product not found''" and products' = seed_products]
      a b d r
    by blast
  let ?err = "TypeError ''req.query.search.toLowerCase is not a function''"
  let ?req' = "json_request GET [''api'', ''products''] [(''search'', QObj [])] (JObj [])"
  have a': "authorized ?req'" by (simp add: authorized_def json_request_def)
  have b': "req_body ?req' = Inr (JObj [])" by (simp add: json_request_def)
  have d': "dispatch routes (req_method ?req') (req_path ?req') = Some (ListProducts, [])"
    by (simp add: json_request_def dispatch_list)
  have r': "run_handler ListProducts [] ''u2'' (req_query ?req') (JObj []) seed_products =
      (Inl ?err, seed_products)"
    by (simp add: json_request_def list_products_def search_stage_def lower_query_def)
  have s': "err_status ?err = None" by (simp add: TypeError_def)
  note mapping = error_mapping [where e = ?err and req = ?req' and body = "JObj []"
      and h = ListProducts and params = "[]" and uuid = "''u2''" and products = seed_products
      and err = ?err and products' = seed_products]
  have runtime: "app ''u2'' ?req' seed_products = (error_handler ?err, seed_products)"
    using mapping a' b' d' r' by blast
  have shape: "error_handler ?err =
      \<lparr>res_status = 500,
       res_body = Json (JObj [(''error'', JStr (err_name ?err)),
                              (''message'', JStr (err_message ?err))])\<rparr>"
    using mapping s' by blast
  show ?thesis
    using r r' s' not_found runtime shape
    by (simp add: json_request_def error_handler_not_found TypeError_def)
qed


section \<open>The statistics route\<close>

lemma match_param_nonempty:
  "match_path [Lit a, Lit b, Param n] path = None \<Longrightarrow>
   match_path [Lit a, Lit b, Lit c] path = Some ps \<Longrightarrow> c = []"
  apply (cases path; simp split: if_splits)
  subgoal for s1 r1
    apply (cases r1; simp split: if_splits)
    subgoal for s2 r2
      apply (cases r2; simp split: if_splits)
      subgoal for s3 r3
        by (cases r3; auto simp: toLowerCase_def split: if_splits)
      done
    done
  done

lemma dispatch_never_stats: "dispatch routes m path \<noteq> Some (ProductStats, params)"
proof
  assume d: "dispatch routes m path = Some (ProductStats, params)"
  show False
  proof (cases m)
    case GET
    with d show False
      by (auto simp: routes_def split: option.splits if_splits dest: match_param_nonempty)
  qed (use d in \<open>auto simp: routes_def split: option.splits if_splits\<close>)
qed

text \<open>
  C1. The source registers \<^verbatim>\<open>GET /api/products/:id\<close> before
  \<^verbatim>\<open>GET /api/products/stats\<close>, so no request is ever dispatched to the statistics
  handler: on the seeded store an authorized \<^verbatim>\<open>GET /api/products/stats\<close> runs the
  \<^verbatim>\<open>:id\<close> handler with id \<^verbatim>\<open>stats\<close> and the answer is 404 "Product not found".
  The statistics handler itself, were it run on the seeded store, would answer 200
  with three products, two in electronics and one in kitchen.
\<close>

theorem stats_route_shadowed:
  "(\<forall>m path params. dispatch routes m path \<noteq> Some (ProductStats, params)) \<and>
   app uuid (json_request GET [''api'', ''products'', ''stats''] q body) seed_products =
     (\<lparr>res_status = 404,
       res_body = Json (JObj [(''error'', JStr ''NotFoundError''),
                              (''message'', JStr ''Product not found'')])\<rparr>,
      seed_products) \<and>
   product_stats seed_products =
     Inr \<lparr>res_status = 200,
          res_body = Json (JObj [(''totalProducts'', JNum 3),
                                 (''categories'', JObj [(''electronics'', JNum 2),
                                                        (''kitchen'', JNum 1)])])\<rparr>"
proof -
  have unreachable: "\<forall>m path params. dispatch routes m path \<noteq> Some (ProductStats, params)"
    by (simp add: dispatch_never_stats)
  have answered: "app uuid (json_request GET [''api'', ''products'', ''stats''] q body)
      seed_products =
     (\<lparr>res_status = 404,
       res_body = Json (JObj [(''error'', JStr ''NotFoundError''),
                              (''message'', JStr ''Product not found'')])\<rparr>,
      seed_products)"
    by (simp add: app_def json_request_def auth_def dispatch_get get_product_def
        seed_products_def error_handler_not_found)
  have handler: "product_stats seed_products =
     Inr \<lparr>res_status = 200,
          res_body = Json (JObj [(''totalProducts'', JNum 3),
                                 (''categories'', JObj [(''electronics'', JNum 2),
                                                        (''kitchen'', JNum 1)])])\<rparr>"
    by (simp add: product_stats_def seed_products_def lower_field_def toLowerCase_def
        lower_char_def bump_def)
  from unreachable answered handler show ?thesis by blast
qed


section \<open>The API key\<close>

text \<open>
  C7, as the source has it. The JSON body parser is the first middleware and the
  auth check the third. A request without the key \<^verbatim>\<open>12345\<close> whose body the parser
  accepted is answered with status 401 and the body
  \<^verbatim>\<open>{message: "Unauthorized - Invalid API Key"}\<close>, whatever its method, path and
  query, so before any route is looked up; and no request without the key changes
  the store, also when the parser rejected its body.
\<close>

theorem auth_gate:
  assumes "\<not> authorized req"
  shows "(\<forall>body. req_body req = Inr body \<longrightarrow>
            app uuid req products =
              (\<lparr>res_status = 401,
                res_body = Json (JObj [(''message'', JStr ''Unauthorized - Invalid API Key'')])\<rparr>,
               products)) \<and>
         snd (app uuid req products) = products"
  using assms by (cases "req_body req") (simp_all add: app_def auth_def authorized_def)

theorem auth_gate_witness:
  "\<not> authorized \<lparr>req_method = DELETE, req_path = [''api'', ''products'', ''1''],
       req_headers = [(''x-api-key'', ''54321'')], req_query = [], req_body = Inr (JObj [])\<rparr> \<and>
   app ''u1'' \<lparr>req_method = DELETE, req_path = [''api'', ''products'', ''1''],
       req_headers = [(''x-api-key'', ''54321'')], req_query = [], req_body = Inr (JObj [])\<rparr>
     seed_products =
     (\<lparr>res_status = 401,
       res_body = Json (JObj [(''message'', JStr ''Unauthorized - Invalid API Key'')])\<rparr>,
      seed_products)"
proof -
  let ?req = "\<lparr>req_method = DELETE, req_path = [''api'', ''products'', ''1''],
    req_headers = [(''x-api-key'', ''54321'')], req_query = [], req_body = Inr (JObj [])\<rparr>"
  have a: "\<not> authorized ?req" by (simp add: authorized_def)
  from auth_gate [OF a, of "''u1''" seed_products] a show ?thesis by simp
qed

text \<open>
  C7 as stated fails: a request without the key whose JSON body is malformed is
  answered by the error handler with the status of the parser's error, 400.
\<close>

theorem auth_gate_counterexample:
  "\<not> authorized \<lparr>req_method = POST, req_path = [''api'', ''products''], req_headers = [],
       req_query = [],
       req_body = Inl \<lparr>err_name = ''SyntaxError'',
                        err_message = ''Unexpected end of JSON input'',
                        err_status = Some 400\<rparr>\<rparr> \<and>
   res_status (fst (app ''u1''
     \<lparr>req_method = POST, req_path = [''api'', ''products''], req_headers = [],
      req_query = [],
      req_body = Inl \<lparr>err_name = ''SyntaxError'',
                       err_message = ''Unexpected end of JSON input'',
                       err_status = Some 400\<rparr>\<rparr>
     seed_products)) = 400"
  by (simp add: authorized_def app_def error_handler_def)


section \<open>Reading, updating and deleting one product\<close>

lemma app_delete:
  assumes "authorized req" and "req_body req = Inr body" and "is_delete req pid"
  shows "app uuid req products =
           (case findIndex (id_is (Some pid)) products of
              None \<Rightarrow> (error_handler (NotFoundError ''Product not found''), products)
            | Some i \<Rightarrow>
                (\<lparr>res_status = 200,
                  res_body = Json (JObj [(''message'', JStr ''Product deleted''),
                                         (''product'', JObj (products ! i))])\<rparr>,
                 take i products @ drop (Suc i) products))"
  using assms
  by (simp add: app_def auth_authorized is_delete_def dispatch_delete delete_product_def
      split: option.splits)

lemma app_get:
  assumes "pid \<noteq> []"
  shows "app uuid (json_request GET [''api'', ''products'', pid] q body) products =
           (case find (id_is (Some pid)) products of
              None \<Rightarrow> (error_handler (NotFoundError ''Product not found''), products)
            | Some p \<Rightarrow> (\<lparr>res_status = 200, res_body = Json (JObj p)\<rparr>, products))"
  using assms
  by (simp add: app_def auth_def json_request_def dispatch_get get_product_def
      split: option.splits)

text \<open>
  C2, as the source has it. \<^verbatim>\<open>validateProduct\<close> runs before the PUT handler, so an
  authorized \<^verbatim>\<open>PUT /api/products/:id\<close> whose body lacks a required field, as the
  body \<^verbatim>\<open>{price: 999}\<close> does, is answered 400 with the store unchanged, whether or
  not a record has the id. With a body that has the five required fields: when no
  record has the id the answer is 404 and the store is unchanged; otherwise the
  answer is 200 and the first record with the id is replaced by itself overlaid with
  the body. A property the body does not have keeps its value (so the id, when the
  body has none); a property of the body takes the body's value; every other record
  and the number of records stay.
\<close>

theorem put_overlays_body:
  assumes "authorized req" and "req_body req = Inr body" and "is_update req pid"
  shows "(missing_required body \<longrightarrow>
            app uuid req products =
              (error_handler (ValidationError ''Missing required product fields''), products)) \<and>
         missing_required (JObj [(''price'', JNum 999)]) \<and>
         (\<not> missing_required body \<and> (\<forall>p \<in> set products. \<not> id_is (Some pid) p) \<longrightarrow>
            app uuid req products =
              (error_handler (NotFoundError ''Product not found''), products)) \<and>
         ((\<exists>p \<in> set products. id_is (Some pid) p) =
            (\<exists>n. findIndex (id_is (Some pid)) products = Some n)) \<and>
         (\<not> missing_required body \<and> findIndex (id_is (Some pid)) products = Some i \<longrightarrow>
            i < length products \<and> id_is (Some pid) (products ! i) \<and>
            app uuid req products =
              (\<lparr>res_status = 200,
                res_body = Json (JObj (spread (products ! i) (own_props body)))\<rparr>,
               products[i := spread (products ! i) (own_props body)]) \<and>
            (\<forall>k. get_prop body k = None \<longrightarrow>
               map_of (spread (products ! i) (own_props body)) k = map_of (products ! i) k) \<and>
            (\<forall>k v. distinct (map fst (own_props body)) \<and> get_prop body k = Some v \<longrightarrow>
               map_of (spread (products ! i) (own_props body)) k = Some v) \<and>
            (\<forall>j. j \<noteq> i \<longrightarrow> snd (app uuid req products) ! j = products ! j) \<and>
            length (snd (app uuid req products)) = length products)"
proof -
  note app = app_update [OF assms, of uuid products]
  have rejected: "missing_required body \<longrightarrow>
      app uuid req products =
        (error_handler (ValidationError ''Missing required product fields''), products)"
    by (simp add: app)
  have price_only: "missing_required (JObj [(''price'', JNum 999)])"
    by (simp add: missing_required_def)
  have absent: "\<not> missing_required body \<and> (\<forall>p \<in> set products. \<not> id_is (Some pid) p) \<longrightarrow>
      app uuid req products = (error_handler (NotFoundError ''Product not found''), products)"
    by (simp add: app findIndex_None_iff [symmetric] del: id_is.simps)
  have present: "(\<exists>p \<in> set products. id_is (Some pid) p) =
      (\<exists>n. findIndex (id_is (Some pid)) products = Some n)"
    using findIndex_None_iff [of "id_is (Some pid)" products]
    by (cases "findIndex (id_is (Some pid)) products") (auto simp del: id_is.simps)
  have kept: "\<forall>k. get_prop body k = None \<longrightarrow>
      map_of (spread (products ! i) (own_props body)) k = map_of (products ! i) k"
    by (simp add: get_prop_None_iff map_of_spread_other)
  have given: "\<forall>k v. distinct (map fst (own_props body)) \<and> get_prop body k = Some v \<longrightarrow>
      map_of (spread (products ! i) (own_props body)) k = Some v"
    by (cases body) (auto intro: map_of_spread_given dest: map_of_SomeD)
  have found: "\<not> missing_required body \<and> findIndex (id_is (Some pid)) products = Some i \<longrightarrow>
      i < length products \<and> id_is (Some pid) (products ! i) \<and>
      app uuid req products =
        (\<lparr>res_status = 200,
          res_body = Json (JObj (spread (products ! i) (own_props body)))\<rparr>,
         products[i := spread (products ! i) (own_props body)]) \<and>
      (\<forall>k. get_prop body k = None \<longrightarrow>
         map_of (spread (products ! i) (own_props body)) k = map_of (products ! i) k) \<and>
      (\<forall>k v. distinct (map fst (own_props body)) \<and> get_prop body k = Some v \<longrightarrow>
         map_of (spread (products ! i) (own_props body)) k = Some v) \<and>
      (\<forall>j. j \<noteq> i \<longrightarrow> snd (app uuid req products) ! j = products ! j) \<and>
      length (snd (app uuid req products)) = length products"
  proof (intro impI, elim conjE)
    assume ok: "\<not> missing_required body"
      and at: "findIndex (id_is (Some pid)) products = Some i"
    from at have here: "i < length products" "id_is (Some pid) (products ! i)"
      by (simp_all add: findIndex_Some_iff del: id_is.simps)
    have result: "app uuid req products =
        (\<lparr>res_status = 200,
          res_body = Json (JObj (spread (products ! i) (own_props body)))\<rparr>,
         products[i := spread (products ! i) (own_props body)])"
      by (simp add: app ok at)
    show "i < length products \<and> id_is (Some pid) (products ! i) \<and>
      app uuid req products =
        (\<lparr>res_status = 200,
          res_body = Json (JObj (spread (products ! i) (own_props body)))\<rparr>,
         products[i := spread (products ! i) (own_props body)]) \<and>
      (\<forall>k. get_prop body k = None \<longrightarrow>
         map_of (spread (products ! i) (own_props body)) k = map_of (products ! i) k) \<and>
      (\<forall>k v. distinct (map fst (own_props body)) \<and> get_prop body k = Some v \<longrightarrow>
         map_of (spread (products ! i) (own_props body)) k = Some v) \<and>
      (\<forall>j. j \<noteq> i \<longrightarrow> snd (app uuid req products) ! j = products ! j) \<and>
      length (snd (app uuid req products)) = length products"
      using here kept given by (simp add: result del: id_is.simps)
  qed
  from rejected price_only absent present found show ?thesis by blast
qed

theorem put_overlays_body_witness:
  "authorized (json_request PUT [''api'', ''products'', ''2''] []
      (JObj [(''name'', JStr ''Smartphone''),
             (''description'', JStr ''Latest model with 128GB storage''),
             (''price'', JNum 999), (''category'', JStr ''electronics''),
             (''inStock'', JBool True)])) \<and>
   findIndex (id_is (Some ''2'')) seed_products = Some 1 \<and>
   snd (app ''u1''
     (json_request PUT [''api'', ''products'', ''2''] []
       (JObj [(''name'', JStr ''Smartphone''),
              (''description'', JStr ''Latest model with 128GB storage''),
              (''price'', JNum 999), (''category'', JStr ''electronics''),
              (''inStock'', JBool True)]))
     seed_products) =
   seed_products[1 :=
     [(''id'', JStr ''2''), (''name'', JStr ''Smartphone''),
      (''description'', JStr ''Latest model with 128GB storage''),
      (''price'', JNum 999), (''category'', JStr ''electronics''), (''inStock'', JBool True)]] \<and>
   app ''u2''
     (json_request PUT [''api'', ''products'', ''9''] []
       (JObj [(''name'', JStr ''Smartphone''),
              (''description'', JStr ''Latest model with 128GB storage''),
              (''price'', JNum 999), (''category'', JStr ''electronics''),
              (''inStock'', JBool True)]))
     seed_products =
   (error_handler (NotFoundError ''Product not found''), seed_products) \<and>
   app ''u3'' (json_request PUT [''api'', ''products'', ''2''] [] (JObj [(''price'', JNum 999)]))
     seed_products =
   (error_handler (ValidationError ''Missing required product fields''), seed_products)"
proof -
  let ?body = "JObj [(''name'', JStr ''Smartphone''),
    (''description'', JStr ''Latest model with 128GB storage''),
    (''price'', JNum 999), (''category'', JStr ''electronics''), (''inStock'', JBool True)]"
  let ?req = "json_request PUT [''api'', ''products'', ''2''] [] ?body"
  have a: "authorized ?req" by (simp add: authorized_def json_request_def)
  have b: "req_body ?req = Inr ?body" by (simp add: json_request_def)
  have c: "is_update ?req ''2''" by (simp add: is_update_def json_request_def)
  have m: "\<not> missing_required ?body" by (simp add: missing_required_def)
  have f: "findIndex (id_is (Some ''2'')) seed_products = Some 1"
    by (simp add: seed_products_def)
  have s: "spread (seed_products ! 1) (own_props ?body) =
      [(''id'', JStr ''2''), (''name'', JStr ''Smartphone''),
       (''description'', JStr ''Latest model with 128GB storage''),
       (''price'', JNum 999), (''category'', JStr ''electronics''), (''inStock'', JBool True)]"
    by (simp add: seed_products_def)
  have updated: "snd (app ''u1'' ?req seed_products) =
      seed_products[1 :=
        [(''id'', JStr ''2''), (''name'', JStr ''Smartphone''),
         (''description'', JStr ''Latest model with 128GB storage''),
         (''price'', JNum 999), (''category'', JStr ''electronics''), (''inStock'', JBool True)]]"
    using put_overlays_body [OF a b c, of "''u1''" seed_products 1] m f s by simp
  let ?req9 = "json_request PUT [''api'', ''products'', ''9''] [] ?body"
  have a9: "authorized ?req9" by (simp add: authorized_def json_request_def)
  have b9: "req_body ?req9 = Inr ?body" by (simp add: json_request_def)
  have c9: "is_update ?req9 ''9''" by (simp add: is_update_def json_request_def)
  have n9: "\<forall>p \<in> set seed_products. \<not> id_is (Some ''9'') p" by (simp add: seed_products_def)
  have absent: "app ''u2'' ?req9 seed_products =
      (error_handler (NotFoundError ''Product not found''), seed_products)"
    using put_overlays_body [OF a9 b9 c9, of "''u2''" seed_products] m n9 by blast
  let ?price = "JObj [(''price'', JNum 999)]"
  let ?reqp = "json_request PUT [''api'', ''products'', ''2''] [] ?price"
  have ap: "authorized ?reqp" by (simp add: authorized_def json_request_def)
  have bp: "req_body ?reqp = Inr ?price" by (simp add: json_request_def)
  have cp: "is_update ?reqp ''2''" by (simp add: is_update_def json_request_def)
  have rejected: "app ''u3'' ?reqp seed_products =
      (error_handler (ValidationError ''Missing required product fields''), seed_products)"
    using put_overlays_body [OF ap bp cp, of "''u3''" seed_products] by blast
  from a f updated absent rejected show ?thesis by blast
qed

text \<open>
  C2 as stated fails: on the seeded store the body \<^verbatim>\<open>{price: 999}\<close> sent to the
  existing id 1 is answered 400, not 200, and changes nothing; sent to the id 9,
  which no record has, it is answered 400, not 404.
\<close>

theorem put_price_only_counterexample:
  "res_status (fst (app ''u1''
      (json_request PUT [''api'', ''products'', ''1''] [] (JObj [(''price'', JNum 999)]))
      seed_products)) = 400 \<and>
   snd (app ''u1''
      (json_request PUT [''api'', ''products'', ''1''] [] (JObj [(''price'', JNum 999)]))
      seed_products) = seed_products \<and>
   res_status (fst (app ''u1''
      (json_request PUT [''api'', ''products'', ''9''] [] (JObj [(''price'', JNum 999)]))
      seed_products)) = 400"
  by (simp add: app_def json_request_def auth_def routes_def validateProduct_def
      error_handler_def ValidationError_def)


section \<open>The ids in a run\<close>

lemma ids_append [simp]: "ids (xs @ ys) = ids xs @ ids ys"
  by (simp add: ids_def)

lemma ids_update_same:
  assumes "i < length products" and "map_of r ''id'' = map_of (products ! i) ''id''"
  shows "ids (products[i := r]) = ids products"
  using assms by (simp add: ids_def list_eq_iff_nth_eq nth_list_update)

lemma run_handler_ids:
  assumes "h = CreateProduct \<or> h = UpdateProduct \<longrightarrow> get_prop body ''id'' = None"
  shows "ids (snd (run_handler h params uuid q body products)) = ids products \<or>
         (h = CreateProduct \<and> validateProduct body = Inr () \<and>
          ids (snd (run_handler h params uuid q body products)) =
            ids products @ [Some (JStr uuid)]) \<or>
         (\<exists>i < length products.
            ids (snd (run_handler h params uuid q body products)) =
              take i (ids products) @ drop (Suc i) (ids products))"
proof (cases h)
  case CreateProduct
  with assms have "map_of (spread [(''id'', JStr uuid)] (own_props body)) ''id'' =
      Some (JStr uuid)"
    by (simp add: get_prop_None_iff map_of_spread_other)
  with CreateProduct show ?thesis
    by (simp add: create_product_def validateProduct_iff ids_def Let_def)
next
  case UpdateProduct
  with assms have keep: "map_of (spread r (own_props body)) ''id'' = map_of r ''id''" for r
    by (simp add: get_prop_None_iff map_of_spread_other)
  show ?thesis
  proof (cases "findIndex (id_is (map_of params ''id'')) products")
    case None
    with UpdateProduct show ?thesis
      by (simp add: update_product_def validateProduct_iff)
  next
    case (Some i)
    then have "i < length products" by (simp add: findIndex_Some_iff)
    with UpdateProduct Some keep show ?thesis
      by (simp add: update_product_def validateProduct_iff Let_def ids_update_same)
  qed
next
  case DeleteProduct
  show ?thesis
  proof (cases "findIndex (id_is (map_of params ''id'')) products")
    case None
    with DeleteProduct show ?thesis by (simp add: delete_product_def)
  next
    case (Some i)
    then have "i < length products" by (simp add: findIndex_Some_iff)
    moreover have "ids (snd (run_handler h params uuid q body products)) =
        take i (ids products) @ drop (Suc i) (ids products)"
      using DeleteProduct Some by (simp add: delete_product_def ids_def take_map drop_map)
    ultimately show ?thesis by blast
  qed
qed simp_all

lemma dispatch_write_method:
  assumes "dispatch routes m path = Some (h, params)"
  shows "(h = CreateProduct \<longrightarrow> m = POST) \<and> (h = UpdateProduct \<longrightarrow> m = PUT)"
  using assms by (cases m) (auto simp: routes_def split: option.splits if_splits)

lemma app_ids:
  assumes "req_method req = POST \<or> req_method req = PUT \<longrightarrow> \<not> body_has_id req"
  shows "ids (snd (app uuid req products)) = ids products \<or>
         (calls_uuidv4 req \<and>
          ids (snd (app uuid req products)) = ids products @ [Some (JStr uuid)]) \<or>
         (\<exists>i < length products.
            ids (snd (app uuid req products)) =
              take i (ids products) @ drop (Suc i) (ids products))"
proof (cases "req_body req")
  case (Inl err)
  then show ?thesis by (simp add: app_def)
next
  case (Inr body)
  show ?thesis
  proof (cases "auth req")
    case (Some res)
    with Inr show ?thesis by (simp add: app_def)
  next
    case None
    show ?thesis
    proof (cases "dispatch routes (req_method req) (req_path req)")
      case no_route: None
      with Inr None show ?thesis by (simp add: app_def)
    next
      case (Some hp)
      obtain h params where hp: "hp = (h, params)" by (cases hp)
      from Some hp dispatch_write_method
      have m: "(h = CreateProduct \<longrightarrow> req_method req = POST) \<and>
          (h = UpdateProduct \<longrightarrow> req_method req = PUT)"
        by simp
      with assms Inr
      have no_id: "h = CreateProduct \<or> h = UpdateProduct \<longrightarrow> get_prop body ''id'' = None"
        by (auto simp: body_has_id_def)
      have store: "snd (app uuid req products) =
          snd (run_handler h params uuid (req_query req) body products)"
        using Inr None Some hp
        by (simp add: app_def split: prod.splits sum.splits)
      have calls: "h = CreateProduct \<and> validateProduct body = Inr () \<longrightarrow> calls_uuidv4 req"
        using Inr None Some hp by (simp add: calls_uuidv4_def)
      from run_handler_ids [OF no_id, of params uuid "req_query req" products] calls
      show ?thesis unfolding store by blast
    qed
  qed
qed

lemma distinct_remove_nth: "distinct xs \<Longrightarrow> distinct (take i xs @ drop (Suc i) xs)"
  by (simp add: set_take_disj_set_drop_if_distinct)

lemma app_id_step:
  assumes "req_method req = POST \<or> req_method req = PUT \<longrightarrow> \<not> body_has_id req"
  shows "id_step (ids products) (ids (snd (app uuid req products)))"
proof -
  have len: "length (ids products) = length products" by (simp add: ids_def)
  from app_ids [OF assms, of uuid products] show ?thesis
    unfolding id_step_def list_ex_iff by (auto simp: len)
qed

lemma run_append: "run (xs @ ys) s = run ys (run xs s)"
  by (induction xs arbitrary: s) auto

lemma generated_Cons:
  "generated ((uuid, req) # steps) = (if calls_uuidv4 req then [uuid] else []) @ generated steps"
  by (simp add: generated_def)

lemma generated_append: "generated (xs @ ys) = generated xs @ generated ys"
  by (simp add: generated_def)

lemma no_body_ids_Cons:
  "no_body_ids ((uuid, req) # steps) \<longleftrightarrow>
     (req_method req = POST \<or> req_method req = PUT \<longrightarrow> \<not> body_has_id req) \<and> no_body_ids steps"
  by (simp add: no_body_ids_def)

lemma no_body_ids_append: "no_body_ids (xs @ ys) \<longleftrightarrow> no_body_ids xs \<and> no_body_ids ys"
  by (simp add: no_body_ids_def)

text \<open>
  The ids a request leaves in the store are ids that were there, and the identifier
  the generator returned if the request called it.
\<close>

lemma app_ids_subset:
  assumes "req_method req = POST \<or> req_method req = PUT \<longrightarrow> \<not> body_has_id req"
  shows "set (ids (snd (app uuid req s))) \<subseteq>
           set (ids s) \<union> (if calls_uuidv4 req then {Some (JStr uuid)} else {})"
proof -
  from app_ids [OF assms, of uuid s]
  consider "ids (snd (app uuid req s)) = ids s"
    | "calls_uuidv4 req" "ids (snd (app uuid req s)) = ids s @ [Some (JStr uuid)]"
    | i where "ids (snd (app uuid req s)) = take i (ids s) @ drop (Suc i) (ids s)"
    by blast
  then show ?thesis
  proof cases
    case 1
    then show ?thesis by auto
  next
    case 2
    then show ?thesis by auto
  next
    case 3
    then show ?thesis by (auto dest: in_set_takeD in_set_dropD)
  qed
qed

lemma run_ids_subset:
  assumes "no_body_ids steps"
  shows "set (ids (run steps s)) \<subseteq> set (ids s) \<union> (\<lambda>u. Some (JStr u)) ` set (generated steps)"
  using assms
proof (induction steps arbitrary: s)
  case Nil
  then show ?case by simp
next
  case (Cons step steps)
  obtain uuid req where step: "step = (uuid, req)" by (cases step)
  from Cons.prems step
  have ok: "req_method req = POST \<or> req_method req = PUT \<longrightarrow> \<not> body_has_id req"
    and rest: "no_body_ids steps"
    by (simp_all add: no_body_ids_Cons)
  from Cons.IH [OF rest, of "snd (app uuid req s)"] app_ids_subset [OF ok, of uuid s]
  show ?case
    unfolding step run.simps generated_Cons [of uuid req steps]
    by (auto split: if_splits)
qed

lemma app_ids_distinct:
  assumes "req_method req = POST \<or> req_method req = PUT \<longrightarrow> \<not> body_has_id req"
    and "calls_uuidv4 req \<longrightarrow> Some (JStr uuid) \<notin> set (ids products)"
    and "distinct (ids products)"
  shows "distinct (ids (snd (app uuid req products)))"
proof -
  from app_ids [OF assms(1), of uuid products]
  consider "ids (snd (app uuid req products)) = ids products"
    | "calls_uuidv4 req"
      "ids (snd (app uuid req products)) = ids products @ [Some (JStr uuid)]"
    | i where "ids (snd (app uuid req products)) =
        take i (ids products) @ drop (Suc i) (ids products)"
    by blast
  then show ?thesis
  proof cases
    case 1
    with assms(3) show ?thesis by simp
  next
    case 2
    with assms(2,3) show ?thesis by simp
  next
    case 3
    with assms(3) show ?thesis by (simp only: distinct_remove_nth)
  qed
qed

lemma run_distinct:
  assumes "distinct (ids s)" and "no_body_ids steps" and "distinct (generated steps)"
    and "\<forall>u \<in> set (generated steps). Some (JStr u) \<notin> set (ids s)"
  shows "distinct (ids (run steps s))"
  using assms
proof (induction steps arbitrary: s)
  case Nil
  then show ?case by simp
next
  case (Cons step steps)
  obtain uuid req where step: "step = (uuid, req)" by (cases step)
  let ?s = "snd (app uuid req s)"
  from Cons.prems(2) step
  have ok: "req_method req = POST \<or> req_method req = PUT \<longrightarrow> \<not> body_has_id req"
    and rest: "no_body_ids steps"
    by (simp_all add: no_body_ids_Cons)
  from Cons.prems(4) step have fresh: "calls_uuidv4 req \<longrightarrow> Some (JStr uuid) \<notin> set (ids s)"
    by (simp add: generated_Cons)
  from ok fresh Cons.prems(1) have d: "distinct (ids ?s)" by (rule app_ids_distinct)
  from Cons.prems(3) step have g: "distinct (generated steps)"
    by (simp add: generated_Cons split: if_splits)
  have "\<forall>u \<in> set (generated steps). Some (JStr u) \<notin> set (ids ?s)"
  proof
    fix u
    assume u: "u \<in> set (generated steps)"
    with Cons.prems(4) step have "Some (JStr u) \<notin> set (ids s)" by (simp add: generated_Cons)
    moreover from u Cons.prems(3) step have "calls_uuidv4 req \<longrightarrow> u \<noteq> uuid"
      by (auto simp: generated_Cons)
    ultimately show "Some (JStr u) \<notin> set (ids ?s)"
      using app_ids_subset [OF ok, of uuid s] by (auto split: if_splits)
  qed
  with d rest g have "distinct (ids (run steps ?s))" by (intro Cons.IH)
  with step show ?case by simp
qed

lemma seed_ids_distinct: "distinct (ids seed_products)"
  by (simp add: ids_def seed_products_def)

lemma uuid_not_seeded: "is_uuid_v4 u \<Longrightarrow> Some (JStr u) \<notin> set (ids seed_products)"
  by (auto simp: is_uuid_v4_def ids_def seed_products_def dest: list_all2_lengthD)

text \<open>
  In a state an admissible run reaches from the seeded store, the next identifier of
  the generator is the id of no stored record.
\<close>

lemma generated_fresh:
  assumes "admissible (steps @ [(uuid, req)])" and "calls_uuidv4 req"
  shows "Some (JStr uuid) \<notin> set (ids (run steps seed_products))"
proof -
  from assms have "no_body_ids steps" and v4: "is_uuid_v4 uuid"
    and new: "uuid \<notin> set (generated steps)"
    by (simp_all add: admissible_def no_body_ids_append generated_append generated_Cons)
  from this(1) have "set (ids (run steps seed_products)) \<subseteq>
      set (ids seed_products) \<union> (\<lambda>u. Some (JStr u)) ` set (generated steps)"
    by (rule run_ids_subset)
  with uuid_not_seeded [OF v4] new show ?thesis by auto
qed


section \<open>Creating a product\<close>

lemma find_append_fresh:
  assumes "\<forall>p \<in> set products. \<not> P p" and "P x"
  shows "find P (products @ [x]) = Some x"
  using assms by (induction products) auto

lemma create_calls_uuidv4:
  assumes "authorized req" and "req_body req = Inr body" and "is_create req"
    and "\<not> missing_required body"
  shows "calls_uuidv4 req"
  using assms
  by (simp add: calls_uuidv4_def auth_authorized is_create_def dispatch_create
      validateProduct_iff)

lemma uuid_nonempty: "is_uuid_v4 u \<Longrightarrow> u \<noteq> []"
  by (auto simp: is_uuid_v4_def)

text \<open>
  C6, as the source has it. The handler writes the generated id first and spreads the
  body over it, and it does not compare the generated id with the stored ones. The
  store is one an admissible run has reached from the seeded store, and the run stays
  admissible with this request: no POST or PUT body had an \<^verbatim>\<open>id\<close> property and
  this one has none, and the generator returns identifiers of its form and never one
  it returned before. Then an authorized \<^verbatim>\<open>POST /api/products\<close> whose body passes
  validation is answered 201 with the created record; the record has the generated
  id, which differs from the id of every record already stored, and the body's
  properties; it is appended at the end of the store, whose length grows by one; and
  a following \<^verbatim>\<open>GET /api/products/:id\<close> with the generated id answers 200 with
  that record.
\<close>

theorem create_appends_fresh:
  assumes "authorized req" and "req_body req = Inr body" and "is_create req"
    and "\<not> missing_required body"
    and "admissible (steps @ [(uuid, req)])"
    and "products = run steps seed_products"
  shows "app uuid req products =
           (\<lparr>res_status = 201,
             res_body = Json (JObj (spread [(''id'', JStr uuid)] (own_props body)))\<rparr>,
            products @ [spread [(''id'', JStr uuid)] (own_props body)]) \<and>
         map_of (spread [(''id'', JStr uuid)] (own_props body)) ''id'' = Some (JStr uuid) \<and>
         (\<forall>k v. distinct (map fst (own_props body)) \<and> get_prop body k = Some v \<longrightarrow>
            map_of (spread [(''id'', JStr uuid)] (own_props body)) k = Some v) \<and>
         (\<forall>p \<in> set products. map_of p ''id'' \<noteq> Some (JStr uuid)) \<and>
         length (snd (app uuid req products)) = Suc (length products) \<and>
         app uuid' (json_request GET [''api'', ''products'', uuid] q' body')
             (snd (app uuid req products)) =
           (\<lparr>res_status = 200,
             res_body = Json (JObj (spread [(''id'', JStr uuid)] (own_props body)))\<rparr>,
            snd (app uuid req products))"
proof -
  let ?created = "spread [(''id'', JStr uuid)] (own_props body)"
  have calls: "calls_uuidv4 req" using assms(1-4) by (rule create_calls_uuidv4)
  with assms(5) have "is_uuid_v4 uuid"
    by (simp add: admissible_def generated_append generated_Cons)
  then have nonempty: "uuid \<noteq> []" by (rule uuid_nonempty)
  from assms(3,5) have "\<not> body_has_id req"
    by (simp add: admissible_def no_body_ids_append no_body_ids_Cons is_create_def)
  with assms(2) have no_id: "get_prop body ''id'' = None" by (simp add: body_has_id_def)
  have result: "app uuid req products =
      (\<lparr>res_status = 201, res_body = Json (JObj ?created)\<rparr>, products @ [?created])"
    using assms(4) by (simp add: app_create [OF assms(1-3)])
  have own_id: "map_of ?created ''id'' = Some (JStr uuid)"
    using no_id by (simp add: get_prop_None_iff map_of_spread_other)
  have given: "\<forall>k v. distinct (map fst (own_props body)) \<and> get_prop body k = Some v \<longrightarrow>
      map_of ?created k = Some v"
    by (cases body) (auto intro: map_of_spread_given dest: map_of_SomeD)
  from assms(5) calls have "Some (JStr uuid) \<notin> set (ids (run steps seed_products))"
    by (rule generated_fresh)
  then have fresh: "\<forall>p \<in> set products. map_of p ''id'' \<noteq> Some (JStr uuid)"
    unfolding assms(6) by (force simp: ids_def)
  have "find (id_is (Some uuid)) (products @ [?created]) = Some ?created"
    using fresh own_id by (intro find_append_fresh) simp_all
  then have read_back: "app uuid' (json_request GET [''api'', ''products'', uuid] q' body')
      (products @ [?created]) =
      (\<lparr>res_status = 200, res_body = Json (JObj ?created)\<rparr>, products @ [?created])"
    by (simp add: app_get [OF nonempty])
  show ?thesis
    using own_id given fresh read_back by (simp add: result)
qed

theorem create_appends_fresh_witness:
  "\<not> missing_required
      (JObj [(''name'', JStr ''Pen''), (''description'', JStr ''Blue''), (''price'', JNum 0),
             (''category'', JStr ''office''), (''inStock'', JBool False)]) \<and>
   admissible
     [([], json_request DELETE [''api'', ''products'', ''2''] [] (JObj [])),
      (''6f1c2d3e-0a4b-4c5d-8e6f-7a8b9c0d1e2f'',
       json_request POST [''api'', ''products''] []
         (JObj [(''name'', JStr ''Pen''), (''description'', JStr ''Blue''), (''price'', JNum 0),
                (''category'', JStr ''office''), (''inStock'', JBool False)]))] \<and>
   run [([], json_request DELETE [''api'', ''products'', ''2''] [] (JObj []))] seed_products =
     [seed_products ! 0, seed_products ! 2] \<and>
   app ''6f1c2d3e-0a4b-4c5d-8e6f-7a8b9c0d1e2f''
     (json_request POST [''api'', ''products''] []
       (JObj [(''name'', JStr ''Pen''), (''description'', JStr ''Blue''), (''price'', JNum 0),
              (''category'', JStr ''office''), (''inStock'', JBool False)]))
     [seed_products ! 0, seed_products ! 2] =
   (\<lparr>res_status = 201,
     res_body = Json (JObj
       [(''id'', JStr ''6f1c2d3e-0a4b-4c5d-8e6f-7a8b9c0d1e2f''), (''name'', JStr ''Pen''),
        (''description'', JStr ''Blue''), (''price'', JNum 0), (''category'', JStr ''office''),
        (''inStock'', JBool False)])\<rparr>,
    [seed_products ! 0, seed_products ! 2,
     [(''id'', JStr ''6f1c2d3e-0a4b-4c5d-8e6f-7a8b9c0d1e2f''), (''name'', JStr ''Pen''),
      (''description'', JStr ''Blue''), (''price'', JNum 0), (''category'', JStr ''office''),
      (''inStock'', JBool False)]])"
proof -
  let ?body = "JObj [(''name'', JStr ''Pen''), (''description'', JStr ''Blue''),
    (''price'', JNum 0), (''category'', JStr ''office''), (''inStock'', JBool False)]"
  let ?req = "json_request POST [''api'', ''products''] [] ?body"
  let ?steps = "[([], json_request DELETE [''api'', ''products'', ''2''] [] (JObj []))]"
  let ?uuid = "''6f1c2d3e-0a4b-4c5d-8e6f-7a8b9c0d1e2f''"
  have a: "authorized ?req" by (simp add: authorized_def json_request_def)
  have b: "req_body ?req = Inr ?body" by (simp add: json_request_def)
  have c: "is_create ?req" by (simp add: is_create_def json_request_def)
  have m: "\<not> missing_required ?body" by (simp add: missing_required_def)
  have d: "admissible (?steps @ [(?uuid, ?req)])"
    by (simp add: admissible_def no_body_ids_def generated_def calls_uuidv4_def body_has_id_def
        json_request_def auth_def routes_def validateProduct_def is_uuid_v4_def uuid_char_def)
  have r: "run ?steps seed_products = [seed_products ! 0, seed_products ! 2]"
    by (simp add: json_request_def seed_products_def app_def auth_def routes_def
        delete_product_def)
  note created = create_appends_fresh [OF a b c m d r [symmetric], THEN conjunct1]
  have s: "spread [(''id'', JStr ?uuid)] (own_props ?body) =
      [(''id'', JStr ?uuid), (''name'', JStr ''Pen''), (''description'', JStr ''Blue''),
       (''price'', JNum 0), (''category'', JStr ''office''), (''inStock'', JBool False)]"
    by simp
  from created m d r show ?thesis unfolding s by simp
qed

text \<open>
  C6 as stated fails in three ways, \<open>u\<close> being an identifier of the generator's form.
  (a) A body that passes validation and has an \<^verbatim>\<open>id\<close> property: on the seeded
  store the body's id 1 overwrites the generated one, the stored record has the id of
  the first seeded record, and a following \<^verbatim>\<open>GET /api/products/1\<close> answers with
  the first seeded record, not the created one. (b) A generator that returns \<open>u\<close>
  twice: the second \<^verbatim>\<open>POST\<close> is answered 201 with a record whose id is the id of
  the record the first one stored, and \<^verbatim>\<open>GET\<close> with that id answers with the
  first. (c) An earlier \<^verbatim>\<open>POST\<close> whose body had the id \<open>u\<close>: a later
  \<^verbatim>\<open>POST\<close> for which the generator returns \<open>u\<close> stores a second record with
  that id.
\<close>

theorem create_with_body_id_counterexample:
  "\<not> missing_required
      (JObj [(''id'', JStr ''1''), (''name'', JStr ''Pen''), (''description'', JStr ''Blue''),
             (''price'', JNum 0), (''category'', JStr ''office''), (''inStock'', JBool False)]) \<and>
   app ''6f1c2d3e-0a4b-4c5d-8e6f-7a8b9c0d1e2f''
     (json_request POST [''api'', ''products''] []
       (JObj [(''id'', JStr ''1''), (''name'', JStr ''Pen''), (''description'', JStr ''Blue''),
              (''price'', JNum 0), (''category'', JStr ''office''), (''inStock'', JBool False)]))
     seed_products =
   (\<lparr>res_status = 201,
     res_body = Json (JObj
       [(''id'', JStr ''1''), (''name'', JStr ''Pen''), (''description'', JStr ''Blue''),
        (''price'', JNum 0), (''category'', JStr ''office''), (''inStock'', JBool False)])\<rparr>,
    seed_products @
      [[(''id'', JStr ''1''), (''name'', JStr ''Pen''), (''description'', JStr ''Blue''),
        (''price'', JNum 0), (''category'', JStr ''office''), (''inStock'', JBool False)]]) \<and>
   Some (JStr ''1'') \<in> set (ids seed_products) \<and>
   fst (app [] (json_request GET [''api'', ''products'', ''1''] [] (JObj []))
     (seed_products @
      [[(''id'', JStr ''1''), (''name'', JStr ''Pen''), (''description'', JStr ''Blue''),
        (''price'', JNum 0), (''category'', JStr ''office''), (''inStock'', JBool False)]])) =
   \<lparr>res_status = 200, res_body = Json (JObj (hd seed_products))\<rparr> \<and>
   is_uuid_v4 ''6f1c2d3e-0a4b-4c5d-8e6f-7a8b9c0d1e2f'' \<and>
   run [(''6f1c2d3e-0a4b-4c5d-8e6f-7a8b9c0d1e2f'',
         json_request POST [''api'', ''products''] []
           (JObj [(''name'', JStr ''Pen''), (''description'', JStr ''Blue''), (''price'', JNum 0),
                  (''category'', JStr ''office''), (''inStock'', JBool False)]))]
     seed_products =
   seed_products @
     [[(''id'', JStr ''6f1c2d3e-0a4b-4c5d-8e6f-7a8b9c0d1e2f''), (''name'', JStr ''Pen''),
       (''description'', JStr ''Blue''), (''price'', JNum 0), (''category'', JStr ''office''),
       (''inStock'', JBool False)]] \<and>
   run [(''0a1b2c3d-4e5f-4a6b-9c7d-8e9f0a1b2c3d'',
         json_request POST [''api'', ''products''] []
           (JObj [(''id'', JStr ''6f1c2d3e-0a4b-4c5d-8e6f-7a8b9c0d1e2f''), (''name'', JStr ''Pen''),
                  (''description'', JStr ''Blue''), (''price'', JNum 0),
                  (''category'', JStr ''office''), (''inStock'', JBool False)]))]
     seed_products =
   seed_products @
     [[(''id'', JStr ''6f1c2d3e-0a4b-4c5d-8e6f-7a8b9c0d1e2f''), (''name'', JStr ''Pen''),
       (''description'', JStr ''Blue''), (''price'', JNum 0), (''category'', JStr ''office''),
       (''inStock'', JBool False)]] \<and>
   fst (app ''6f1c2d3e-0a4b-4c5d-8e6f-7a8b9c0d1e2f''
     (json_request POST [''api'', ''products''] []
       (JObj [(''name'', JStr ''Ink''), (''description'', JStr ''Black''), (''price'', JNum 2),
              (''category'', JStr ''office''), (''inStock'', JBool True)]))
     (seed_products @
       [[(''id'', JStr ''6f1c2d3e-0a4b-4c5d-8e6f-7a8b9c0d1e2f''), (''name'', JStr ''Pen''),
         (''description'', JStr ''Blue''), (''price'', JNum 0), (''category'', JStr ''office''),
         (''inStock'', JBool False)]])) =
   \<lparr>res_status = 201,
     res_body = Json (JObj
       [(''id'', JStr ''6f1c2d3e-0a4b-4c5d-8e6f-7a8b9c0d1e2f''), (''name'', JStr ''Ink''),
        (''description'', JStr ''Black''), (''price'', JNum 2), (''category'', JStr ''office''),
        (''inStock'', JBool True)])\<rparr> \<and>
   fst (app [] (json_request GET [''api'', ''products'', ''6f1c2d3e-0a4b-4c5d-8e6f-7a8b9c0d1e2f'']
                 [] (JObj []))
     (snd (app ''6f1c2d3e-0a4b-4c5d-8e6f-7a8b9c0d1e2f''
       (json_request POST [''api'', ''products''] []
         (JObj [(''name'', JStr ''Ink''), (''description'', JStr ''Black''), (''price'', JNum 2),
                (''category'', JStr ''office''), (''inStock'', JBool True)]))
       (seed_products @
         [[(''id'', JStr ''6f1c2d3e-0a4b-4c5d-8e6f-7a8b9c0d1e2f''), (''name'', JStr ''Pen''),
           (''description'', JStr ''Blue''), (''price'', JNum 0), (''category'', JStr ''office''),
           (''inStock'', JBool False)]])))) =
   \<lparr>res_status = 200,
     res_body = Json (JObj
       [(''id'', JStr ''6f1c2d3e-0a4b-4c5d-8e6f-7a8b9c0d1e2f''), (''name'', JStr ''Pen''),
        (''description'', JStr ''Blue''), (''price'', JNum 0), (''category'', JStr ''office''),
        (''inStock'', JBool False)])\<rparr>"
  by (simp add: missing_required_def app_def json_request_def auth_def routes_def
      validateProduct_def create_product_def get_product_def ids_def seed_products_def Let_def
      is_uuid_v4_def uuid_char_def)


section \<open>Deleting a product\<close>

lemma find_None_removed:
  assumes "i < length xs" and "\<forall>j < length xs. j \<noteq> i \<longrightarrow> \<not> P (xs ! j)"
  shows "find P (take i xs @ drop (Suc i) xs) = None"
proof -
  have "\<not> P x" if "x \<in> set (take i xs @ drop (Suc i) xs)" for x
  proof -
    from that consider "x \<in> set (take i xs)" | "x \<in> set (drop (Suc i) xs)" by auto
    then show ?thesis
    proof cases
      case 1
      then obtain j where "j < i" "x = xs ! j"
        using assms(1) by (auto simp: in_set_conv_nth)
      with assms show ?thesis by auto
    next
      case 2
      then obtain j where "j < length xs - Suc i" "x = xs ! (Suc i + j)"
        using assms(1) by (auto simp: in_set_conv_nth)
      with assms show ?thesis by auto
    qed
  qed
  then show ?thesis unfolding find_None_iff by blast
qed

lemma findIndex_unique:
  assumes "i < length xs" and "P (xs ! i)" and "\<forall>j < length xs. j \<noteq> i \<longrightarrow> \<not> P (xs ! j)"
  shows "findIndex P xs = Some i"
  using assms by (auto simp: findIndex_Some_iff)

text \<open>
  C8, as the source has it. The handler compares the stored ids with the path
  parameter, a non-empty string, by \<^verbatim>\<open>===\<close>, and removes the first record whose
  id is that string. For an authorized \<^verbatim>\<open>DELETE /api/products/:id\<close>: when no
  record has the id the answer is 404 and the store is unchanged; when a record has
  the id and no other record has it, the answer is 200 with the body
  \<^verbatim>\<open>{message: "Product deleted", product: <the record>}\<close>, the store is the old one
  without that record, and a following \<^verbatim>\<open>GET /api/products/:id\<close> with the same id
  answers 404; and whenever a record has the id, the answer is 200 with the first
  such record, and the store is the old one without it.
\<close>

theorem delete_removes_record:
  assumes "authorized req" and "req_body req = Inr body" and "is_delete req pid"
  shows "((\<forall>p \<in> set products. \<not> id_is (Some pid) p) \<longrightarrow>
            app uuid req products =
              (\<lparr>res_status = 404,
                res_body = Json (JObj [(''error'', JStr ''NotFoundError''),
                                       (''message'', JStr ''Product not found'')])\<rparr>,
               products)) \<and>
         (i < length products \<and> id_is (Some pid) (products ! i) \<and>
          (\<forall>j < length products. j \<noteq> i \<longrightarrow> \<not> id_is (Some pid) (products ! j)) \<longrightarrow>
            app uuid req products =
              (\<lparr>res_status = 200,
                res_body = Json (JObj [(''message'', JStr ''Product deleted''),
                                       (''product'', JObj (products ! i))])\<rparr>,
               take i products @ drop (Suc i) products) \<and>
            app uuid' (json_request GET [''api'', ''products'', pid] q' body')
                (snd (app uuid req products)) =
              (\<lparr>res_status = 404,
                res_body = Json (JObj [(''error'', JStr ''NotFoundError''),
                                       (''message'', JStr ''Product not found'')])\<rparr>,
               snd (app uuid req products))) \<and>
         (n < length products \<and> id_is (Some pid) (products ! n) \<and>
          (\<forall>j < n. \<not> id_is (Some pid) (products ! j)) \<longrightarrow>
            app uuid req products =
              (\<lparr>res_status = 200,
                res_body = Json (JObj [(''message'', JStr ''Product deleted''),
                                       (''product'', JObj (products ! n))])\<rparr>,
               take n products @ drop (Suc n) products))"
proof -
  note app = app_delete [OF assms, of uuid products]
  from assms(3) have pid: "pid \<noteq> []" by (simp add: is_delete_def)
  have absent: "(\<forall>p \<in> set products. \<not> id_is (Some pid) p) \<longrightarrow>
      app uuid req products =
        (\<lparr>res_status = 404,
          res_body = Json (JObj [(''error'', JStr ''NotFoundError''),
                                 (''message'', JStr ''Product not found'')])\<rparr>,
         products)"
    by (simp add: app findIndex_None_iff [symmetric] error_handler_not_found del: id_is.simps)
  have present: "app uuid req products =
        (\<lparr>res_status = 200,
          res_body = Json (JObj [(''message'', JStr ''Product deleted''),
                                 (''product'', JObj (products ! i))])\<rparr>,
         take i products @ drop (Suc i) products) \<and>
      app uuid' (json_request GET [''api'', ''products'', pid] q' body')
          (snd (app uuid req products)) =
        (\<lparr>res_status = 404,
          res_body = Json (JObj [(''error'', JStr ''NotFoundError''),
                                 (''message'', JStr ''Product not found'')])\<rparr>,
         snd (app uuid req products))"
    if here: "i < length products" "id_is (Some pid) (products ! i)"
      and only: "\<forall>j < length products. j \<noteq> i \<longrightarrow> \<not> id_is (Some pid) (products ! j)"
  proof -
    have at: "findIndex (id_is (Some pid)) products = Some i"
      using here only by (rule findIndex_unique)
    have gone: "find (id_is (Some pid)) (take i products @ drop (Suc i) products) = None"
      using here(1) only by (rule find_None_removed)
    show ?thesis
      by (simp add: app at app_get [OF pid] gone error_handler_not_found)
  qed
  have first: "app uuid req products =
        (\<lparr>res_status = 200,
          res_body = Json (JObj [(''message'', JStr ''Product deleted''),
                                 (''product'', JObj (products ! n))])\<rparr>,
         take n products @ drop (Suc n) products)"
    if "n < length products" "id_is (Some pid) (products ! n)"
      and "\<forall>j < n. \<not> id_is (Some pid) (products ! j)"
  proof -
    from that have "findIndex (id_is (Some pid)) products = Some n"
      unfolding findIndex_Some_iff by blast
    then show ?thesis by (simp add: app)
  qed
  from absent present first show ?thesis by blast
qed

theorem delete_removes_record_witness:
  "authorized (json_request DELETE [''api'', ''products'', ''2''] [] (JObj [])) \<and>
   id_is (Some ''2'') (seed_products ! 1) \<and>
   app [] (json_request DELETE [''api'', ''products'', ''2''] [] (JObj [])) seed_products =
     (\<lparr>res_status = 200,
       res_body = Json (JObj [(''message'', JStr ''Product deleted''),
                              (''product'', JObj (seed_products ! 1))])\<rparr>,
      take 1 seed_products @ drop (Suc 1) seed_products) \<and>
   app [] (json_request GET [''api'', ''products'', ''2''] [] (JObj []))
     (snd (app [] (json_request DELETE [''api'', ''products'', ''2''] [] (JObj []))
        seed_products)) =
     (\<lparr>res_status = 404,
       res_body = Json (JObj [(''error'', JStr ''NotFoundError''),
                              (''message'', JStr ''Product not found'')])\<rparr>,
      snd (app [] (json_request DELETE [''api'', ''products'', ''2''] [] (JObj []))
        seed_products)) \<and>
   app [] (json_request DELETE [''api'', ''products'', ''9''] [] (JObj [])) seed_products =
     (\<lparr>res_status = 404,
       res_body = Json (JObj [(''error'', JStr ''NotFoundError''),
                              (''message'', JStr ''Product not found'')])\<rparr>,
      seed_products) \<and>
   id_is (Some ''1'') ((seed_products @ [hd seed_products]) ! 0) \<and>
   app [] (json_request DELETE [''api'', ''products'', ''1''] [] (JObj []))
       (seed_products @ [hd seed_products]) =
     (\<lparr>res_status = 200,
       res_body = Json (JObj [(''message'', JStr ''Product deleted''),
                              (''product'', JObj ((seed_products @ [hd seed_products]) ! 0))])\<rparr>,
      take 0 (seed_products @ [hd seed_products]) @
      drop (Suc 0) (seed_products @ [hd seed_products]))"
proof -
  let ?req = "json_request DELETE [''api'', ''products'', ''2''] [] (JObj [])"
  have a: "authorized ?req" by (simp add: authorized_def json_request_def)
  have b: "req_body ?req = Inr (JObj [])" by (simp add: json_request_def)
  have c: "is_delete ?req ''2''" by (simp add: is_delete_def json_request_def)
  have l: "(1::nat) < length seed_products" by (simp add: seed_products_def)
  have h: "id_is (Some ''2'') (seed_products ! 1)" by (simp add: seed_products_def)
  have o: "\<forall>j < length seed_products. j \<noteq> 1 \<longrightarrow> \<not> id_is (Some ''2'') (seed_products ! j)"
    by (simp add: seed_products_def less_Suc_eq)
  let ?req9 = "json_request DELETE [''api'', ''products'', ''9''] [] (JObj [])"
  have a9: "authorized ?req9" by (simp add: authorized_def json_request_def)
  have b9: "req_body ?req9 = Inr (JObj [])" by (simp add: json_request_def)
  have c9: "is_delete ?req9 ''9''" by (simp add: is_delete_def json_request_def)
  have n9: "\<forall>p \<in> set seed_products. \<not> id_is (Some ''9'') p" by (simp add: seed_products_def)
  let ?req1 = "json_request DELETE [''api'', ''products'', ''1''] [] (JObj [])"
  have a1: "authorized ?req1" by (simp add: authorized_def json_request_def)
  have b1: "req_body ?req1 = Inr (JObj [])" by (simp add: json_request_def)
  have c1: "is_delete ?req1 ''1''" by (simp add: is_delete_def json_request_def)
  have l1: "0 < length (seed_products @ [hd seed_products])" by simp
  have h1: "id_is (Some ''1'') ((seed_products @ [hd seed_products]) ! 0)"
    by (simp add: seed_products_def)
  have o1: "\<forall>j < (0::nat). \<not> id_is (Some ''1'') ((seed_products @ [hd seed_products]) ! j)"
    by simp
  from delete_removes_record [OF a b c, where products = seed_products and i = 1
      and uuid = "[]" and uuid' = "[]" and q' = "[]" and body' = "JObj []"]
    delete_removes_record [OF a9 b9 c9, where products = seed_products and uuid = "[]"]
    delete_removes_record [OF a1 b1 c1, where products = "seed_products @ [hd seed_products]"
      and uuid = "[]" and n = 0]
    a l h o n9 l1 h1 o1
  show ?thesis by blast
qed

text \<open>
  C8 as stated fails in three stores, each reached from the seeded one by a
  \<^verbatim>\<open>POST\<close> whose body has an \<^verbatim>\<open>id\<close> property. (a) Two records with one id:
  after a \<^verbatim>\<open>POST\<close> whose body has the id 1, \<^verbatim>\<open>DELETE /api/products/1\<close> answers
  200 and removes the first seeded record, and the following
  \<^verbatim>\<open>GET /api/products/1\<close> answers 200 with the other record, not 404. (b) An id
  that is not a string: after a \<^verbatim>\<open>POST\<close> whose body has the number 5 as id, the
  record is present, and \<^verbatim>\<open>DELETE /api/products/5\<close> answers 404 and removes
  nothing, the number 5 and the string of the path not being equal by \<^verbatim>\<open>===\<close>.
  (c) The empty string as id: after a \<^verbatim>\<open>POST\<close> whose body has the id \<^verbatim>\<open>""\<close>, the
  request on that id is \<^verbatim>\<open>DELETE /api/products/\<close>, which no route matches: it is
  answered by the 404 page of Express and removes nothing.
\<close>

theorem delete_duplicate_id_counterexample:
  "snd (app ''6f1c2d3e-0a4b-4c5d-8e6f-7a8b9c0d1e2f''
     (json_request POST [''api'', ''products''] []
       (JObj [(''id'', JStr ''1''), (''name'', JStr ''Pen''), (''description'', JStr ''Blue''),
              (''price'', JNum 0), (''category'', JStr ''office''), (''inStock'', JBool False)]))
     seed_products) =
   seed_products @
     [[(''id'', JStr ''1''), (''name'', JStr ''Pen''), (''description'', JStr ''Blue''),
       (''price'', JNum 0), (''category'', JStr ''office''), (''inStock'', JBool False)]] \<and>
   res_status (fst (app [] (json_request DELETE [''api'', ''products'', ''1''] [] (JObj []))
     (seed_products @
       [[(''id'', JStr ''1''), (''name'', JStr ''Pen''), (''description'', JStr ''Blue''),
         (''price'', JNum 0), (''category'', JStr ''office''), (''inStock'', JBool False)]]))) = 200 \<and>
   res_status (fst (app [] (json_request GET [''api'', ''products'', ''1''] [] (JObj []))
     (snd (app [] (json_request DELETE [''api'', ''products'', ''1''] [] (JObj []))
       (seed_products @
         [[(''id'', JStr ''1''), (''name'', JStr ''Pen''), (''description'', JStr ''Blue''),
           (''price'', JNum 0), (''category'', JStr ''office''),
           (''inStock'', JBool False)]]))))) = 200 \<and>
   snd (app ''6f1c2d3e-0a4b-4c5d-8e6f-7a8b9c0d1e2f''
     (json_request POST [''api'', ''products''] []
       (JObj [(''id'', JNum 5), (''name'', JStr ''Pen''), (''description'', JStr ''Blue''),
              (''price'', JNum 0), (''category'', JStr ''office''), (''inStock'', JBool False)]))
     seed_products) =
   seed_products @
     [[(''id'', JNum 5), (''name'', JStr ''Pen''), (''description'', JStr ''Blue''),
       (''price'', JNum 0), (''category'', JStr ''office''), (''inStock'', JBool False)]] \<and>
   app [] (json_request DELETE [''api'', ''products'', ''5''] [] (JObj []))
     (seed_products @
       [[(''id'', JNum 5), (''name'', JStr ''Pen''), (''description'', JStr ''Blue''),
         (''price'', JNum 0), (''category'', JStr ''office''), (''inStock'', JBool False)]]) =
   (\<lparr>res_status = 404,
     res_body = Json (JObj [(''error'', JStr ''NotFoundError''),
                            (''message'', JStr ''Product not found'')])\<rparr>,
    seed_products @
      [[(''id'', JNum 5), (''name'', JStr ''Pen''), (''description'', JStr ''Blue''),
        (''price'', JNum 0), (''category'', JStr ''office''), (''inStock'', JBool False)]]) \<and>
   snd (app ''6f1c2d3e-0a4b-4c5d-8e6f-7a8b9c0d1e2f''
     (json_request POST [''api'', ''products''] []
       (JObj [(''id'', JStr []), (''name'', JStr ''Pen''), (''description'', JStr ''Blue''),
              (''price'', JNum 0), (''category'', JStr ''office''), (''inStock'', JBool False)]))
     seed_products) =
   seed_products @
     [[(''id'', JStr []), (''name'', JStr ''Pen''), (''description'', JStr ''Blue''),
       (''price'', JNum 0), (''category'', JStr ''office''), (''inStock'', JBool False)]] \<and>
   app [] (json_request DELETE [''api'', ''products'', []] [] (JObj []))
     (seed_products @
       [[(''id'', JStr []), (''name'', JStr ''Pen''), (''description'', JStr ''Blue''),
         (''price'', JNum 0), (''category'', JStr ''office''), (''inStock'', JBool False)]]) =
   (\<lparr>res_status = 404, res_body = DefaultNotFoundPage\<rparr>,
    seed_products @
      [[(''id'', JStr []), (''name'', JStr ''Pen''), (''description'', JStr ''Blue''),
        (''price'', JNum 0), (''category'', JStr ''office''), (''inStock'', JBool False)]])"
  by (simp add: app_def json_request_def auth_def routes_def validateProduct_def
      create_product_def delete_product_def get_product_def seed_products_def Let_def
      error_handler_def NotFoundError_def)


section \<open>The ids of the stored products\<close>

text \<open>
  C3, as the source has it. Both write handlers spread the request body over the
  record, so an \<^verbatim>\<open>id\<close> property of the body becomes the id of the record; and the
  POST handler stores the identifier the generator returns without comparing it with
  the ids in the store. In every state reached from the seeded store by requests of
  which no POST or PUT body has an \<^verbatim>\<open>id\<close> property, with a generator that returns
  identifiers of the form of a version 4 UUID and never one it returned before, the
  ids of the stored products are pairwise distinct; and no request of such a run
  changes the id of a stored product: it leaves the list of ids as it is, or appends
  one id, or removes the id at one position.
\<close>

theorem ids_unique_and_stable:
  assumes "admissible steps"
  shows "distinct (ids (run steps seed_products)) \<and>
         (\<forall>n < length steps.
            id_step (ids (run (take n steps) seed_products))
                    (ids (run (take (Suc n) steps) seed_products)))"
proof (intro conjI allI impI)
  from assms have b: "no_body_ids steps" and g: "distinct (generated steps)"
    and "list_all is_uuid_v4 (generated steps)"
    by (simp_all add: admissible_def)
  then have "\<forall>u \<in> set (generated steps). Some (JStr u) \<notin> set (ids seed_products)"
    by (simp add: list_all_iff uuid_not_seeded)
  with seed_ids_distinct b g show "distinct (ids (run steps seed_products))"
    by (rule run_distinct)
next
  fix n
  assume n: "n < length steps"
  obtain uuid req where step: "steps ! n = (uuid, req)" by (cases "steps ! n")
  from n have split: "steps = take n steps @ (uuid, req) # drop (Suc n) steps"
    by (simp add: step [symmetric] id_take_nth_drop [symmetric])
  from assms have "no_body_ids (take n steps @ (uuid, req) # drop (Suc n) steps)"
    using split by (simp add: admissible_def)
  then have ok: "req_method req = POST \<or> req_method req = PUT \<longrightarrow> \<not> body_has_id req"
    by (simp add: no_body_ids_append no_body_ids_Cons)
  have "run (take (Suc n) steps) seed_products =
      snd (app uuid req (run (take n steps) seed_products))"
    using n by (simp add: take_Suc_conv_app_nth step run_append)
  with app_id_step [OF ok]
  show "id_step (ids (run (take n steps) seed_products))
      (ids (run (take (Suc n) steps) seed_products))"
    by simp
qed

theorem ids_unique_and_stable_witness:
  "admissible
     [(''6f1c2d3e-0a4b-4c5d-8e6f-7a8b9c0d1e2f'', json_request POST [''api'', ''products''] []
         (JObj [(''name'', JStr ''Pen''), (''description'', JStr ''Blue''), (''price'', JNum 0),
                (''category'', JStr ''office''), (''inStock'', JBool False)])),
      ([], json_request PUT [''api'', ''products'', ''1''] []
         (JObj [(''name'', JStr ''Laptop''), (''description'', JStr ''Used''),
                (''price'', JNum 999), (''category'', JStr ''electronics''),
                (''inStock'', JBool True)])),
      ([], json_request DELETE [''api'', ''products'', ''2''] [] (JObj []))] \<and>
   ids (run
     [(''6f1c2d3e-0a4b-4c5d-8e6f-7a8b9c0d1e2f'', json_request POST [''api'', ''products''] []
         (JObj [(''name'', JStr ''Pen''), (''description'', JStr ''Blue''), (''price'', JNum 0),
                (''category'', JStr ''office''), (''inStock'', JBool False)])),
      ([], json_request PUT [''api'', ''products'', ''1''] []
         (JObj [(''name'', JStr ''Laptop''), (''description'', JStr ''Used''),
                (''price'', JNum 999), (''category'', JStr ''electronics''),
                (''inStock'', JBool True)])),
      ([], json_request DELETE [''api'', ''products'', ''2''] [] (JObj []))]
     seed_products) =
     [Some (JStr ''1''), Some (JStr ''3''), Some (JStr ''6f1c2d3e-0a4b-4c5d-8e6f-7a8b9c0d1e2f'')] \<and>
   distinct (ids (run
     [(''6f1c2d3e-0a4b-4c5d-8e6f-7a8b9c0d1e2f'', json_request POST [''api'', ''products''] []
         (JObj [(''name'', JStr ''Pen''), (''description'', JStr ''Blue''), (''price'', JNum 0),
                (''category'', JStr ''office''), (''inStock'', JBool False)])),
      ([], json_request PUT [''api'', ''products'', ''1''] []
         (JObj [(''name'', JStr ''Laptop''), (''description'', JStr ''Used''),
                (''price'', JNum 999), (''category'', JStr ''electronics''),
                (''inStock'', JBool True)])),
      ([], json_request DELETE [''api'', ''products'', ''2''] [] (JObj []))]
     seed_products))"
proof -
  let ?steps = "[(''6f1c2d3e-0a4b-4c5d-8e6f-7a8b9c0d1e2f'',
        json_request POST [''api'', ''products''] []
         (JObj [(''name'', JStr ''Pen''), (''description'', JStr ''Blue''), (''price'', JNum 0),
                (''category'', JStr ''office''), (''inStock'', JBool False)])),
      ([], json_request PUT [''api'', ''products'', ''1''] []
         (JObj [(''name'', JStr ''Laptop''), (''description'', JStr ''Used''),
                (''price'', JNum 999), (''category'', JStr ''electronics''),
                (''inStock'', JBool True)])),
      ([], json_request DELETE [''api'', ''products'', ''2''] [] (JObj []))]"
  have a: "admissible ?steps"
    by (simp add: admissible_def no_body_ids_def generated_def calls_uuidv4_def body_has_id_def
        json_request_def auth_def routes_def validateProduct_def is_uuid_v4_def uuid_char_def)
  have r: "ids (run ?steps seed_products) =
      [Some (JStr ''1''), Some (JStr ''3''), Some (JStr ''6f1c2d3e-0a4b-4c5d-8e6f-7a8b9c0d1e2f'')]"
    by (simp add: json_request_def ids_def seed_products_def app_def auth_def
        routes_def validateProduct_def create_product_def update_product_def
        delete_product_def Let_def)
  from ids_unique_and_stable [OF a] a r show ?thesis by blast
qed

text \<open>
  C3 as stated fails in three runs from the seeded store. A \<^verbatim>\<open>POST\<close> whose body
  has the id 1 leaves two records with the id 1. A \<^verbatim>\<open>PUT /api/products/2\<close> whose
  body has the id 1 changes the id of the second record from 2 to 1. And two
  \<^verbatim>\<open>POST\<close> requests without an id in the body, for which the generator returns the
  same identifier, leave two records with that id: nothing in the source compares a
  generated identifier with the stored ids.
\<close>

theorem ids_overwritten_counterexample:
  "\<not> distinct (ids (run
      [(''6f1c2d3e-0a4b-4c5d-8e6f-7a8b9c0d1e2f'', json_request POST [''api'', ''products''] []
          (JObj [(''id'', JStr ''1''), (''name'', JStr ''Pen''), (''description'', JStr ''Blue''),
                 (''price'', JNum 0), (''category'', JStr ''office''),
                 (''inStock'', JBool False)]))]
      seed_products)) \<and>
   ids (run
      [([], json_request PUT [''api'', ''products'', ''2''] []
          (JObj [(''id'', JStr ''1''), (''name'', JStr ''Pen''), (''description'', JStr ''Blue''),
                 (''price'', JNum 0), (''category'', JStr ''office''),
                 (''inStock'', JBool False)]))]
      seed_products) = [Some (JStr ''1''), Some (JStr ''1''), Some (JStr ''3'')] \<and>
   is_uuid_v4 ''6f1c2d3e-0a4b-4c5d-8e6f-7a8b9c0d1e2f'' \<and>
   no_body_ids
      [(''6f1c2d3e-0a4b-4c5d-8e6f-7a8b9c0d1e2f'', json_request POST [''api'', ''products''] []
          (JObj [(''name'', JStr ''Pen''), (''description'', JStr ''Blue''),
                 (''price'', JNum 0), (''category'', JStr ''office''),
                 (''inStock'', JBool False)])),
       (''6f1c2d3e-0a4b-4c5d-8e6f-7a8b9c0d1e2f'', json_request POST [''api'', ''products''] []
          (JObj [(''name'', JStr ''Ink''), (''description'', JStr ''Black''),
                 (''price'', JNum 2), (''category'', JStr ''office''),
                 (''inStock'', JBool True)]))] \<and>
   ids (run
      [(''6f1c2d3e-0a4b-4c5d-8e6f-7a8b9c0d1e2f'', json_request POST [''api'', ''products''] []
          (JObj [(''name'', JStr ''Pen''), (''description'', JStr ''Blue''),
                 (''price'', JNum 0), (''category'', JStr ''office''),
                 (''inStock'', JBool False)])),
       (''6f1c2d3e-0a4b-4c5d-8e6f-7a8b9c0d1e2f'', json_request POST [''api'', ''products''] []
          (JObj [(''name'', JStr ''Ink''), (''description'', JStr ''Black''),
                 (''price'', JNum 2), (''category'', JStr ''office''),
                 (''inStock'', JBool True)]))]
      seed_products) =
     [Some (JStr ''1''), Some (JStr ''2''), Some (JStr ''3''),
      Some (JStr ''6f1c2d3e-0a4b-4c5d-8e6f-7a8b9c0d1e2f''),
      Some (JStr ''6f1c2d3e-0a4b-4c5d-8e6f-7a8b9c0d1e2f'')]"
  by (simp add: json_request_def ids_def seed_products_def app_def auth_def
      routes_def validateProduct_def create_product_def update_product_def Let_def
      no_body_ids_def body_has_id_def is_uuid_v4_def uuid_char_def)


section \<open>Slices and pages\<close>












section \<open>Listing products\<close>

lemma starts_with_iff: "starts_with t s \<longleftrightarrow> (\<exists>b. t = s @ b)"
  by (induction t s rule: starts_with.induct) auto

lemma str_includes_iff: "str_includes t s \<longleftrightarrow> (\<exists>a b. t = a @ s @ b)"
proof (induction t)
  case Nil
  then show ?case by simp
next
  case (Cons d ds)
  show ?case
  proof
    assume "str_includes (d # ds) s"
    then consider "starts_with (d # ds) s" | "str_includes ds s" by auto
    then show "\<exists>a b. d # ds = a @ s @ b"
    proof cases
      case 1
      then obtain b where "d # ds = [] @ s @ b" by (auto simp: starts_with_iff)
      then show ?thesis by blast
    next
      case 2
      with Cons.IH obtain a b where "ds = a @ s @ b" by blast
      then have "d # ds = (d # a) @ s @ b" by simp
      then show ?thesis by blast
    qed
  next
    assume "\<exists>a b. d # ds = a @ s @ b"
    then obtain a b where ab: "d # ds = a @ s @ b" by blast
    show "str_includes (d # ds) s"
    proof (cases a)
      case Nil
      with ab have "starts_with (d # ds) s" by (auto simp: starts_with_iff)
      then show ?thesis by simp
    next
      case (Cons a0 as)
      with ab have "ds = as @ s @ b" by simp
      with Cons.IH have "str_includes ds s" by blast
      then show ?thesis by simp
    qed
  qed
qed

lemma str_includes_empty [simp]: "str_includes t []"
  by (cases t) simp_all

lemma toLowerCase_Nil [simp]: "toLowerCase [] = []"
  by (simp add: toLowerCase_def)






lemma toLowerCase_Nil_iff [simp]: "toLowerCase s = [] \<longleftrightarrow> s = []"
  by (simp add: toLowerCase_def)




lemma category_filter_subset: "set (category_filter c records) \<subseteq> set records"
  by (auto simp: category_filter_def split: option.splits)












section \<open>Page and limit values that parse to zero\<close>











end
